theory Spec2Isabelle
  imports Complex_Main
begin

section \<open>Tide prediction of the marine conditions service\<close>

text \<open>
  A shallow embedding of the tide modules (\<^verbatim>\<open>app/config.py\<close>, \<^verbatim>\<open>app/tides.py\<close>,
  \<^verbatim>\<open>app/tides_fes2022.py\<close>), of the constants extraction script
  (\<^verbatim>\<open>extract_fes2022_constants.py\<close>) and of the response cache (\<^verbatim>\<open>app/cache.py\<close>).

  Conventions of the embedding:
  \<^item> A Python float is the real number it denotes; there is no NaN and no infinity.
    Where the code's arithmetic on doubles decides a property (the FES2022 time grid, the
    conversion to centimetres) every operation rounds its exact result to binary64 with
    \<open>fl\<close>. The GOT4.10 grid is computed exactly: after the floor division it holds
    whole seconds far below \<open>2 ^ 53\<close>, which binary64 represents exactly, and rounding
    \<^verbatim>\<open>total_seconds()\<close> to a double moves an instant of microsecond resolution by less
    than a tenth of a microsecond, never across an hour boundary. The harmonic constants
    handed to the library are exact.
  \<^item> An instant is a real number of seconds since 1970-01-01T00:00:00 UTC.
  \<^item> A call that can raise returns \<open>exn + 'a\<close>, with \<open>Inl\<close> the raised exception.
  \<^item> Everything outside the repository (the clock, the file system, the pyTMD library)
    is a field of a world record that the functions take as an argument.
  \<^item> Module constants that a property varies (the horizon, the datum offset, the model
    name) are fields of a configuration record; \<open>app_config\<close> holds the values of
    \<^verbatim>\<open>app/config.py\<close>.
\<close>

subsection \<open>Configuration (\<^verbatim>\<open>app/config.py\<close>)\<close>

definition LATITUDE :: real where
  "LATITUDE = 284937 / 10000"

definition LONGITUDE :: real where
  "LONGITUDE = 345131 / 10000"

definition FORECAST_HOURS :: nat where
  "FORECAST_HOURS = 168"

definition TIDE_DATUM_OFFSET_CM :: int where
  "TIDE_DATUM_OFFSET_CM = 45"

text \<open>\<^verbatim>\<open>os.environ.get("TIDE_MODEL", "GOT4.10")\<close>: the argument is the value of the
  environment variable, \<open>None\<close> when it is not set.\<close>

definition TIDE_MODEL_NAME :: "string option \<Rightarrow> string" where
  "TIDE_MODEL_NAME env_var = (case env_var of None \<Rightarrow> ''GOT4.10'' | Some v \<Rightarrow> v)"

record config =
  forecast_hours :: nat
  tide_datum_offset_cm :: int
  tide_model_name :: string

definition app_config :: "string option \<Rightarrow> config" where
  "app_config env_var =
     \<lparr>forecast_hours = FORECAST_HOURS,
      tide_datum_offset_cm = TIDE_DATUM_OFFSET_CM,
      tide_model_name = TIDE_MODEL_NAME env_var\<rparr>"

subsection \<open>Exceptions\<close>

text \<open>The exception classes that the modelled code can meet. \<open>KeyboardInterrupt\<close> and
  \<open>SystemExit\<close> derive from \<open>BaseException\<close> only; every other class derives from
  \<open>Exception\<close>. \<open>OSError\<close> stands for its subclasses too (\<open>FileNotFoundError\<close>,
  \<open>PermissionError\<close>).\<close>

datatype exn =
    ImportError
  | OSError
  | JSONDecodeError
  | KeyError
  | TypeError
  | ValueError
  | IndexError
  | LibraryError
  | KeyboardInterrupt
  | SystemExit

fun is_Exception :: "exn \<Rightarrow> bool" where
  "is_Exception KeyboardInterrupt = False"
| "is_Exception SystemExit = False"
| "is_Exception _ = True"

fun is_OSError :: "exn \<Rightarrow> bool" where
  "is_OSError OSError = True"
| "is_OSError _ = False"

subsection \<open>Rounding to binary64\<close>

text \<open>The number of binary digits of a natural number.\<close>

fun bit_length :: "nat \<Rightarrow> nat" where
  "bit_length n = (if n = 0 then 0 else Suc (bit_length (n div 2)))"

declare bit_length.simps [simp del]

text \<open>The binary exponent of a nonzero real: \<open>2 ^ e \<le> \<bar>x\<bar> < 2 ^ (e + 1)\<close>.\<close>

definition exponent :: "real \<Rightarrow> int" where
  "exponent x =
     (let a = \<bar>x\<bar>
      in if 1 \<le> a then int (bit_length (nat \<lfloor>a\<rfloor>)) - 1
         else (let k = bit_length (nat \<lfloor>1 / a\<rfloor>)
               in if a * 2 ^ (k - 1) = 1 then 1 - int k else - int k))"

text \<open>The nearest integer, a tie going to the even neighbour.\<close>

definition round_to_even :: "real \<Rightarrow> int" where
  "round_to_even x =
     (let f = \<lfloor>x\<rfloor>; d = x - of_int f
      in if d < 1 / 2 then f else if 1 / 2 < d then f + 1 else if even f then f else f + 1)"

text \<open>The double nearest to a real, a tie going to the even significand (IEEE 754
  binary64, round to nearest even): the significand has 53 bits, so the doubles around
  \<open>x\<close> are the multiples of \<open>2 ^ (exponent x - 52)\<close>. Overflow and subnormal numbers
  are outside the model; no value of the repository comes near them.\<close>

definition fl :: "real \<Rightarrow> real" where
  "fl x =
     (if x = 0 then 0
      else (let e = exponent x
            in if e \<le> 52
               then of_int (round_to_even (x * 2 ^ nat (52 - e))) / 2 ^ nat (52 - e)
               else of_int (round_to_even (x / 2 ^ nat (e - 52))) * 2 ^ nat (e - 52)))"

subsection \<open>Centimetre conversion (\<^verbatim>\<open>int(round(float(t) * 100)) + TIDE_DATUM_OFFSET_CM\<close>)\<close>

text \<open>C's \<^verbatim>\<open>round\<close>: the nearest integer, a half going away from zero.\<close>

definition c_round :: "real \<Rightarrow> int" where
  "c_round x = (if 0 \<le> x then \<lfloor>x + 1 / 2\<rfloor> else \<lceil>x - 1 / 2\<rceil>)"

text \<open>Python 3's one-argument \<^verbatim>\<open>round\<close> on a float, as CPython computes it:
  \<^verbatim>\<open>rounded = round(x); if (fabs(x - rounded) == 0.5) rounded = 2.0 * round(x / 2.0);\<close>\<close>

definition py_round :: "real \<Rightarrow> int" where
  "py_round x =
     (let rounded = c_round x
      in if \<bar>x - of_int rounded\<bar> = 1 / 2 then 2 * c_round (x / 2) else rounded)"

text \<open>\<^verbatim>\<open>float(t) * 100\<close> is a product of doubles, rounded to a double before
  \<^verbatim>\<open>round\<close> sees it.\<close>

definition tide_cm :: "int \<Rightarrow> real \<Rightarrow> int" where
  "tide_cm offset t = py_round (fl (t * 100)) + offset"

text \<open>The rounding the specification names, written from its words: the nearest
  integer, a half going away from zero.\<close>

definition round_half_away_from_zero :: "real \<Rightarrow> int" where
  "round_half_away_from_zero x =
     (if 0 \<le> x then \<lfloor>\<bar>x\<bar> + 1 / 2\<rfloor> else - \<lfloor>\<bar>x\<bar> + 1 / 2\<rfloor>)"

subsection \<open>Forecast time grids\<close>

text \<open>\<^verbatim>\<open>datetime(2000, 1, 1, 0, 0, 0)\<close> and \<^verbatim>\<open>datetime(1992, 1, 1, 0, 0, 0)\<close> as instants.\<close>

definition epoch :: real where
  "epoch = 946684800"

definition epoch_1992 :: real where
  "epoch_1992 = 694224000"

text \<open>\<^verbatim>\<open>(now - epoch).total_seconds()\<close>, as an exact number of seconds.\<close>

definition total_seconds :: "real \<Rightarrow> real \<Rightarrow> real" where
  "total_seconds now e = now - e"

text \<open>Python's \<^verbatim>\<open>x // y\<close> on floats, for a positive divisor: the floor of the exact
  quotient of the two doubles.\<close>

definition floordiv :: "real \<Rightarrow> real \<Rightarrow> real" where
  "floordiv x y = of_int \<lfloor>x / y\<rfloor>"

text \<open>\<^verbatim>\<open>app/tides.py\<close>, lines 45 to 54: seconds since 2000-01-01. Every value after
  the floor division is a whole number of seconds, which binary64 holds exactly.\<close>

definition got410_delta_times :: "nat \<Rightarrow> real \<Rightarrow> real list" where
  "got410_delta_times n now =
     (let base_seconds = total_seconds now epoch;
          base_seconds = floordiv base_seconds 3600 * 3600
      in map (\<lambda>i. base_seconds + of_nat i * 3600) [0..<n])"

text \<open>\<^verbatim>\<open>app/tides_fes2022.py\<close>, lines 71 to 79: days since 1992-01-01, in doubles.
  \<^verbatim>\<open>total_seconds()\<close> returns the double nearest to the exact difference, \<^verbatim>\<open>1/24\<close>
  is the double nearest to one twenty-fourth, and each division, product and sum rounds
  its exact result.\<close>

definition fes2022_t :: "nat \<Rightarrow> real \<Rightarrow> real list" where
  "fes2022_t n now =
     (let base_days = fl (fl (total_seconds now epoch_1992) / 86400);
          base_days = fl (floordiv base_days (fl (1 / 24)) * fl (1 / 24))
      in map (\<lambda>i. fl (base_days + fl (of_nat i / 24))) [0..<n])"

text \<open>The instant that an entry of each grid denotes: pyTMD reads \<open>delta_times\<close> as
  seconds after the \<^verbatim>\<open>EPOCH\<close> argument (2000-01-01), and \<^verbatim>\<open>predict.drift\<close> reads
  \<open>t\<close> as days after 1992-01-01.\<close>

definition got410_instant :: "real \<Rightarrow> real" where
  "got410_instant d = epoch + d"

definition fes2022_instant :: "real \<Rightarrow> real" where
  "fes2022_instant t = epoch_1992 + t * 86400"

text \<open>The grid the specification names, written from its words:
  \<^verbatim>\<open>start = floor_to_hour(now_utc()); [start, start+1h, ..., start+(horizon-1)h]\<close>.\<close>

definition floor_to_hour :: "real \<Rightarrow> real" where
  "floor_to_hour now = of_int \<lfloor>now / 3600\<rfloor> * 3600"

definition hourly_timestamps :: "nat \<Rightarrow> real \<Rightarrow> real list" where
  "hourly_timestamps horizon now =
     map (\<lambda>i. floor_to_hour now + of_nat i * 3600) [0..<horizon]"

subsection \<open>The numpy operations of the FES2022 path\<close>

text \<open>\<^verbatim>\<open>np.deg2rad\<close>\<close>

definition deg2rad :: "real \<Rightarrow> real" where
  "deg2rad d = d * pi / 180"

text \<open>The element-wise product \<^verbatim>\<open>amp * np.exp(1j * ph_rad)\<close> of two one-dimensional
  arrays: equal lengths multiply index by index, an array of length one is broadcast
  against the other, and any other pair of lengths raises \<open>ValueError\<close>.\<close>

definition np_multiply :: "real list \<Rightarrow> complex list \<Rightarrow> exn + complex list" where
  "np_multiply xs ys =
     (if length xs = length ys then Inr (map2 (\<lambda>x y. of_real x * y) xs ys)
      else if length xs = 1 then Inr (map (\<lambda>y. of_real (hd xs) * y) ys)
      else if length ys = 1 then Inr (map (\<lambda>x. of_real x * hd ys) xs)
      else Inl ValueError)"

text \<open>\<^verbatim>\<open>hc_single = amp * np.exp(1j * ph_rad)\<close> with \<^verbatim>\<open>ph_rad = np.deg2rad(ph)\<close>\<close>

definition hc_single :: "real list \<Rightarrow> real list \<Rightarrow> exn + complex list" where
  "hc_single amp ph =
     np_multiply amp (map (\<lambda>p. exp (\<i> * of_real (deg2rad p))) ph)"

subsection \<open>The world of a prediction call\<close>

text \<open>The persisted constants document as \<^verbatim>\<open>json.load\<close> returns it: a dictionary in
  which any of the five keys may be missing (\<open>None\<close>). Values of the wrong JSON type are
  outside the model.\<close>

record constants_doc =
  doc_latitude :: "real option"
  doc_longitude :: "real option"
  doc_constituents :: "string list option"
  doc_amplitude :: "real list option"
  doc_phase :: "real list option"

text \<open>\<^verbatim>\<open>d[key]\<close> on a dictionary\<close>

definition subscript :: "'a option \<Rightarrow> exn + 'a" where
  "subscript v = (case v of None \<Rightarrow> Inl KeyError | Some x \<Rightarrow> Inr x)"

text \<open>
  \<^item> \<open>utcnow\<close>: \<^verbatim>\<open>datetime.utcnow()\<close>;
  \<^item> \<open>import_pyTMD\<close>: the exception that importing pyTMD raises, if any;
  \<^item> \<open>compute_tide_corrections\<close>: \<^verbatim>\<open>pyTMD.compute_tide_corrections\<close> applied to
    \<open>lons\<close>, \<open>lats\<close>, \<open>delta_times\<close> (its other arguments are constants of the call);
  \<^item> \<open>cache_file_exists\<close>: \<^verbatim>\<open>CACHE_FILE.exists()\<close>;
  \<^item> \<open>cache_file_load\<close>: \<^verbatim>\<open>open(CACHE_FILE)\<close> followed by \<^verbatim>\<open>json.load\<close>;
  \<^item> \<open>predict_drift\<close>: \<^verbatim>\<open>pyTMD.predict.drift\<close> applied to \<open>t\<close>, \<open>hc\<close>,
    \<open>constituents\<close> (with \<^verbatim>\<open>deltat=0.0, corrections='FES'\<close>).
\<close>

record world =
  utcnow :: real
  import_pyTMD :: "exn option"
  compute_tide_corrections :: "real list \<Rightarrow> real list \<Rightarrow> real list \<Rightarrow> exn + real list"
  cache_file_exists :: bool
  cache_file_load :: "exn + constants_doc"
  predict_drift :: "real list \<Rightarrow> complex list list \<Rightarrow> string list \<Rightarrow> exn + real list"

text \<open>\<^verbatim>\<open>try: ... except Exception: return None\<close> around a body\<close>

definition except_Exception :: "exn + 'a option \<Rightarrow> exn + 'a option" where
  "except_Exception body =
     (case body of
        Inl e \<Rightarrow> if is_Exception e then Inr None else Inl e
      | Inr v \<Rightarrow> Inr v)"

text \<open>The list comprehension that converts to centimetres, followed by the log call,
  whose \<^verbatim>\<open>min(tide_cm)\<close> raises \<open>ValueError\<close> on an empty list.\<close>

definition to_tide_cm :: "int \<Rightarrow> real list \<Rightarrow> exn + int list option" where
  "to_tide_cm offset tide =
     (let cm = map (tide_cm offset) tide
      in if cm = [] then Inl ValueError else Inr (Some cm))"

subsection \<open>GOT4.10 path (\<^verbatim>\<open>app/tides.py\<close>)\<close>

definition compute_tides_got410_body :: "config \<Rightarrow> world \<Rightarrow> exn + int list option" where
  "compute_tides_got410_body cfg w =
     (case import_pyTMD w of
        Some e \<Rightarrow> Inl e
      | None \<Rightarrow>
          (let n = forecast_hours cfg;
               delta_times = got410_delta_times n (utcnow w);
               lons = replicate n LONGITUDE;
               lats = replicate n LATITUDE
           in case compute_tide_corrections w lons lats delta_times of
                Inl e \<Rightarrow> Inl e
              | Inr tide \<Rightarrow> to_tide_cm (tide_datum_offset_cm cfg) tide))"

definition compute_tides_got410 :: "config \<Rightarrow> world \<Rightarrow> exn + int list option" where
  "compute_tides_got410 cfg w = except_Exception (compute_tides_got410_body cfg w)"

subsection \<open>FES2022 path (\<^verbatim>\<open>app/tides_fes2022.py\<close>)\<close>

text \<open>\<^verbatim>\<open>_load_constants\<close>. The second argument and the second component of the result
  are the module variable \<^verbatim>\<open>_cached_constants\<close> before and after the call. The
  assignment precedes the log call, whose arguments read three keys of the document.\<close>

definition load_constants ::
  "world \<Rightarrow> constants_doc option \<Rightarrow> (exn + constants_doc option) \<times> constants_doc option" where
  "load_constants w cached =
     (case cached of
        Some c \<Rightarrow> (Inr (Some c), cached)
      | None \<Rightarrow>
          if \<not> cache_file_exists w then (Inr None, None)
          else (case cache_file_load w of
                  Inl e \<Rightarrow> (Inl e, None)
                | Inr doc \<Rightarrow>
                    (case subscript (doc_constituents doc) of
                       Inl e \<Rightarrow> (Inl e, Some doc)
                     | Inr cs \<Rightarrow>
                         (case subscript (doc_latitude doc) of
                            Inl e \<Rightarrow> (Inl e, Some doc)
                          | Inr lat \<Rightarrow>
                              (case subscript (doc_longitude doc) of
                                 Inl e \<Rightarrow> (Inl e, Some doc)
                               | Inr lon \<Rightarrow> (Inr (Some doc), Some doc))))))"

text \<open>Lines 66 to 109: what follows a successful load.\<close>

definition fes2022_predict :: "config \<Rightarrow> world \<Rightarrow> constants_doc \<Rightarrow> exn + int list option" where
  "fes2022_predict cfg w constants =
     (case subscript (doc_constituents constants) of
        Inl e \<Rightarrow> Inl e
      | Inr constituents \<Rightarrow>
     (case subscript (doc_amplitude constants) of
        Inl e \<Rightarrow> Inl e
      | Inr amp \<Rightarrow>
     (case subscript (doc_phase constants) of
        Inl e \<Rightarrow> Inl e
      | Inr ph \<Rightarrow>
          (let n = forecast_hours cfg;
               t = fes2022_t n (utcnow w)
           in case hc_single amp ph of
                Inl e \<Rightarrow> Inl e
              | Inr hc1 \<Rightarrow>
                  (case predict_drift w t (replicate n hc1) constituents of
                     Inl e \<Rightarrow> Inl e
                   | Inr tide \<Rightarrow> to_tide_cm (tide_datum_offset_cm cfg) tide)))))"

definition compute_tides_fes2022_body ::
  "config \<Rightarrow> world \<Rightarrow> constants_doc option \<Rightarrow> (exn + int list option) \<times> constants_doc option" where
  "compute_tides_fes2022_body cfg w cached =
     (case import_pyTMD w of
        Some e \<Rightarrow> (Inl e, cached)
      | None \<Rightarrow>
          (case load_constants w cached of
             (Inl e, cached') \<Rightarrow> (Inl e, cached')
           | (Inr None, cached') \<Rightarrow> (Inr None, cached')
           | (Inr (Some constants), cached') \<Rightarrow> (fes2022_predict cfg w constants, cached')))"

definition compute_tides_fes2022 ::
  "config \<Rightarrow> world \<Rightarrow> constants_doc option \<Rightarrow> (exn + int list option) \<times> constants_doc option" where
  "compute_tides_fes2022 cfg w cached =
     (let (r, cached') = compute_tides_fes2022_body cfg w cached
      in (except_Exception r, cached'))"

subsection \<open>The dispatcher (\<^verbatim>\<open>compute_tides\<close> of \<^verbatim>\<open>app/tides.py\<close>)\<close>

text \<open>The first branch imports \<^verbatim>\<open>app.tides_fes2022\<close>, which loads only modules that
  \<^verbatim>\<open>app/tides.py\<close> has loaded already; the import is taken to succeed.\<close>

definition compute_tides ::
  "config \<Rightarrow> world \<Rightarrow> constants_doc option \<Rightarrow> (exn + int list option) \<times> constants_doc option" where
  "compute_tides cfg w cached =
     (if tide_model_name cfg = ''FES2022'' then compute_tides_fes2022 cfg w cached
      else (compute_tides_got410 cfg w, cached))"

text \<open>A process calls the FES2022 path repeatedly, each call in the world of its moment;
  \<^verbatim>\<open>_cached_constants\<close> starts as \<open>None\<close> (line 25) and is threaded through.\<close>

fun fes2022_calls ::
  "config \<Rightarrow> world list \<Rightarrow> constants_doc option \<Rightarrow> (exn + int list option) list" where
  "fes2022_calls cfg [] cached = []"
| "fes2022_calls cfg (w # ws) cached =
     (let (r, cached') = compute_tides_fes2022 cfg w cached
      in r # fes2022_calls cfg ws cached')"

subsection \<open>Files\<close>

text \<open>A disk maps a path to the text of the file there. \<open>base\<close> is \<^verbatim>\<open>BASE_DIR\<close>.\<close>

type_synonym disk = "string \<Rightarrow> string option"

definition path_join :: "string \<Rightarrow> string \<Rightarrow> string" where
  "path_join a b = a @ ''/'' @ b"

definition CACHE_FILE :: "string \<Rightarrow> string" where
  "CACHE_FILE base = path_join (path_join base ''data'') ''cache.json''"

text \<open>\<^verbatim>\<open>os.path.dirname(CACHE_FILE)\<close>\<close>

definition CACHE_DIR :: "string \<Rightarrow> string" where
  "CACHE_DIR base = path_join base ''data''"

definition TIDE_MODEL_DIR :: "string \<Rightarrow> string" where
  "TIDE_MODEL_DIR base = path_join base ''tide-models''"

text \<open>\<^verbatim>\<open>CACHE_FILE\<close> of \<^verbatim>\<open>extract_fes2022_constants.py\<close> and \<^verbatim>\<open>app/tides_fes2022.py\<close>\<close>

definition FES2022_CACHE_FILE :: "string \<Rightarrow> string" where
  "FES2022_CACHE_FILE base =
     path_join (path_join (TIDE_MODEL_DIR base) ''FES2022'') ''dahab_constants.json''"

text \<open>The states of the disk while text is written to the file at \<open>path\<close>, from the
  empty file that opening for writing leaves to the file holding the first \<open>k\<close>
  characters.\<close>

definition written_prefixes :: "string \<Rightarrow> string \<Rightarrow> nat \<Rightarrow> disk \<Rightarrow> disk list" where
  "written_prefixes path text k d = map (\<lambda>j. d(path \<mapsto> take j text)) [0..<Suc k]"

subsection \<open>Constants extraction (\<^verbatim>\<open>extract_fes2022_constants.py\<close>)\<close>

definition CONSTITUENTS :: "string list" where
  "CONSTITUENTS =
     [''2n2'', ''eps2'', ''j1'', ''k1'', ''k2'', ''l2'', ''lambda2'', ''m2'', ''m3'', ''m4'',
      ''m6'', ''m8'', ''mf'', ''mks2'', ''mm'', ''mn4'', ''ms4'', ''msf'', ''msqm'', ''mtm'',
      ''mu2'', ''n2'', ''n4'', ''nu2'', ''o1'', ''p1'', ''q1'', ''r2'', ''s1'', ''s2'', ''s4'',
      ''sa'', ''ssa'', ''t2'']"

record results =
  latitude :: real
  longitude :: real
  constituents :: "string list"
  amplitude :: "real list"
  phase :: "real list"

text \<open>
  \<^item> \<open>import_pyTMD_io_FES\<close>: the exception that \<^verbatim>\<open>import pyTMD.io.FES\<close> raises, if any;
  \<^item> \<open>model_file_exists c\<close>: \<^verbatim>\<open>model_file.exists()\<close> for constituent \<open>c\<close>;
  \<^item> \<open>FES_extract_constants c\<close>: \<^verbatim>\<open>pyTMD.io.FES.extract_constants\<close> on the model file
    of \<open>c\<close>, giving \<^verbatim>\<open>amp[0, 0]\<close> and \<^verbatim>\<open>ph[0, 0]\<close>, each \<open>None\<close> when masked;
  \<^item> \<open>json_dump\<close>: the text that \<^verbatim>\<open>json.dump(results, f, indent=2)\<close> writes.
\<close>

record extract_world =
  import_pyTMD_io_FES :: "exn option"
  model_file_exists :: "string \<Rightarrow> bool"
  FES_extract_constants :: "string \<Rightarrow> exn + (real option \<times> real option)"
  json_dump :: "results \<Rightarrow> string"

text \<open>The points at which saving the record can fail: \<^verbatim>\<open>mkdir\<close>, \<^verbatim>\<open>open(..., 'w')\<close>,
  and \<^verbatim>\<open>json.dump\<close> or the closing flush after \<open>k\<close> characters have reached the
  file.\<close>

record write_faults =
  mkdir_fault :: "exn option"
  open_fault :: "exn option"
  dump_fault :: "(nat \<times> exn) option"

text \<open>Lines 41 to 47.\<close>

definition initial_results :: results where
  "initial_results =
     \<lparr>latitude = LATITUDE, longitude = LONGITUDE,
      constituents = [], amplitude = [], phase = []\<rparr>"

text \<open>Lines 72 and 73: \<^verbatim>\<open>float(x) if not np.ma.is_masked(x) else 0.0\<close>\<close>

definition unmask :: "real option \<Rightarrow> real" where
  "unmask x = (case x of Some v \<Rightarrow> v | None \<Rightarrow> 0)"

text \<open>The loop of lines 49 to 82 over the constituents still to visit.\<close>

fun extract_loop :: "extract_world \<Rightarrow> string list \<Rightarrow> results \<Rightarrow> exn + results" where
  "extract_loop w [] r = Inr r"
| "extract_loop w (c # cs) r =
     (if \<not> model_file_exists w c then extract_loop w cs r
      else (case FES_extract_constants w c of
              Inl e \<Rightarrow> if is_Exception e then extract_loop w cs r else Inl e
            | Inr (amp, ph) \<Rightarrow>
                (let a = unmask amp; p = unmask ph
                 in extract_loop w cs
                      (r\<lparr>constituents := constituents r @ [c],
                         amplitude := amplitude r @ [a],
                         phase := phase r @ [p]\<rparr>))))"

text \<open>Lines 85 to 87. The second component lists the states of the disk in order, the
  last one being the state when the call ends.\<close>

definition save_results ::
  "write_faults \<Rightarrow> string \<Rightarrow> string \<Rightarrow> disk \<Rightarrow> (exn + unit) \<times> disk list" where
  "save_results f path text d =
     (case mkdir_fault f of
        Some e \<Rightarrow> (Inl e, [d])
      | None \<Rightarrow>
          (case open_fault f of
             Some e \<Rightarrow> (Inl e, [d])
           | None \<Rightarrow>
               (case dump_fault f of
                  Some (k, e) \<Rightarrow> (Inl e, d # written_prefixes path text (min k (length text)) d)
                | None \<Rightarrow> (Inr (), d # written_prefixes path text (length text) d))))"

text \<open>\<^verbatim>\<open>extract_constants\<close>. The Python function returns nothing; the model returns the
  record it has saved.\<close>

definition extract_constants ::
  "extract_world \<Rightarrow> write_faults \<Rightarrow> string \<Rightarrow> disk \<Rightarrow> (exn + results) \<times> disk list" where
  "extract_constants w f base d =
     (case import_pyTMD_io_FES w of
        Some e \<Rightarrow> (Inl e, [d])
      | None \<Rightarrow>
          (case extract_loop w CONSTITUENTS initial_results of
             Inl e \<Rightarrow> (Inl e, [d])
           | Inr r \<Rightarrow>
               (case save_results f (FES2022_CACHE_FILE base) (json_dump w r) d of
                  (Inl e, trace) \<Rightarrow> (Inl e, trace)
                | (Inr u, trace) \<Rightarrow> (Inr r, trace))))"

subsection \<open>Response cache (\<^verbatim>\<open>CacheManager._save_to_disk\<close> of \<^verbatim>\<open>app/cache.py\<close>)\<close>

text \<open>The points at which a save can fail: \<^verbatim>\<open>os.makedirs\<close>, \<^verbatim>\<open>tempfile.mkstemp\<close>,
  writing (\<^verbatim>\<open>os.fdopen\<close>, \<^verbatim>\<open>json.dump\<close> or the closing flush, after \<open>k\<close> characters have
  reached the temporary file) and \<^verbatim>\<open>os.replace\<close>. \<^verbatim>\<open>os.unlink\<close> of the temporary
  file just created does not fail.\<close>

record save_faults =
  makedirs_fault :: "exn option"
  mkstemp_fault :: "exn option"
  write_fault :: "(nat \<times> exn) option"
  replace_fault :: "exn option"

text \<open>\<^verbatim>\<open>tempfile.mkstemp(dir=dir, suffix=suffix)\<close>: the path of the new file, \<open>rnd\<close>
  being the random characters of its name.\<close>

definition mkstemp :: "string \<Rightarrow> string \<Rightarrow> string \<Rightarrow> string" where
  "mkstemp dir suffix rnd = path_join dir (''tmp'' @ rnd @ suffix)"

text \<open>The outer handler: \<^verbatim>\<open>except OSError\<close> logs a warning and the method returns.\<close>

definition except_OSError :: "exn \<Rightarrow> exn + unit" where
  "except_OSError e = (if is_OSError e then Inr () else Inl e)"

text \<open>The inner handler: \<^verbatim>\<open>except Exception: os.unlink(tmp_path); raise\<close>\<close>

definition unlink_and_raise :: "exn \<Rightarrow> string \<Rightarrow> disk \<Rightarrow> disk" where
  "unlink_and_raise e tmp_path d = (if is_Exception e then d(tmp_path := None) else d)"

text \<open>\<open>text\<close> is what \<^verbatim>\<open>json.dump(stored, f)\<close> writes. The second component lists the
  states of the disk in order, the last one being the state when the call ends.\<close>

definition save_to_disk ::
  "save_faults \<Rightarrow> string \<Rightarrow> string \<Rightarrow> string \<Rightarrow> disk \<Rightarrow> (exn + unit) \<times> disk list" where
  "save_to_disk f base rnd text d =
     (case makedirs_fault f of
        Some e \<Rightarrow> (except_OSError e, [d])
      | None \<Rightarrow>
          (case mkstemp_fault f of
             Some e \<Rightarrow> (except_OSError e, [d])
           | None \<Rightarrow>
               (let tmp_path = mkstemp (CACHE_DIR base) ''.tmp'' rnd
                in case write_fault f of
                     Some (k, e) \<Rightarrow>
                       (let k' = min k (length text)
                        in (except_OSError e,
                            d # written_prefixes tmp_path text k' d @
                            [unlink_and_raise e tmp_path (d(tmp_path \<mapsto> take k' text))]))
                   | None \<Rightarrow>
                       (case replace_fault f of
                          Some e \<Rightarrow>
                            (except_OSError e,
                             d # written_prefixes tmp_path text (length text) d @
                             [unlink_and_raise e tmp_path (d(tmp_path \<mapsto> text))])
                        | None \<Rightarrow>
                            (Inr (),
                             d # written_prefixes tmp_path text (length text) d @
                             [d(tmp_path := None, CACHE_FILE base \<mapsto> text)])))))"

subsection \<open>The synthesizer's contract and sample worlds\<close>

text \<open>The harmonic synthesizer is the pyTMD library, which is not part of the
  repository. The contribution of one constituent to a height, written from the words
  of the specification (section 4.4, step 3):
  \<^verbatim>\<open>f_c(t) * amplitude_c * cos(V0_c(t) + u_c(t) - phase_c)\<close>, where \<open>argument\<close> stands
  for \<^verbatim>\<open>V0_c(t) + u_c(t)\<close>, in radians.\<close>

definition harmonic_term :: "real \<Rightarrow> real \<Rightarrow> real \<Rightarrow> real \<Rightarrow> real" where
  "harmonic_term f amplitude_c argument phase_c = f * amplitude_c * cos (argument - phase_c)"

text \<open>The contract of the synthesizer, written from the words of the specification
  (section 4.4): it returns a sequence of heights, one per timestamp. Both entry points
  of the library are held to it.\<close>

definition one_height_per_timestamp :: "world \<Rightarrow> bool" where
  "one_height_per_timestamp w \<longleftrightarrow>
     (\<forall>lons lats delta_times tide.
        compute_tide_corrections w lons lats delta_times = Inr tide \<longrightarrow>
        length tide = length delta_times) \<and>
     (\<forall>t hc names tide.
        predict_drift w t hc names = Inr tide \<longrightarrow> length tide = length t)"

text \<open>A stand-in for \<^verbatim>\<open>pyTMD.predict.drift\<close> at a moment when every constituent has
  argument zero and nodal factor one: the height at a time is the sum of the real parts
  of that row's harmonic constants, one column per named constituent; a row with too
  few columns raises \<open>IndexError\<close>.\<close>

definition sample_drift :: "real list \<Rightarrow> complex list list \<Rightarrow> string list \<Rightarrow> exn + real list" where
  "sample_drift t hc names =
     (if length hc \<noteq> length t \<or> list_ex (\<lambda>row. length row < length names) hc
      then Inl IndexError
      else Inr (map (\<lambda>row. sum_list (map Re (take (length names) row))) hc))"

text \<open>A stand-in for \<^verbatim>\<open>pyTMD.compute_tide_corrections\<close>: a constant height of 0.125 m.\<close>

definition sample_corrections :: "real list \<Rightarrow> real list \<Rightarrow> real list \<Rightarrow> exn + real list" where
  "sample_corrections lons lats delta_times = Inr (map (\<lambda>d. 1 / 8) delta_times)"

definition sample_doc :: constants_doc where
  "sample_doc =
     \<lparr>doc_latitude = Some LATITUDE, doc_longitude = Some LONGITUDE,
      doc_constituents = Some [''m2''], doc_amplitude = Some [3 / 10], doc_phase = Some [0]\<rparr>"

text \<open>A document whose amplitude and phase arrays differ in length.\<close>

definition mismatched_doc :: constants_doc where
  "mismatched_doc =
     \<lparr>doc_latitude = Some LATITUDE, doc_longitude = Some LONGITUDE,
      doc_constituents = Some [''m2'', ''s2''], doc_amplitude = Some [3 / 10],
      doc_phase = Some [0, 0]\<rparr>"

definition unbroadcastable_doc :: constants_doc where
  "unbroadcastable_doc =
     \<lparr>doc_latitude = Some LATITUDE, doc_longitude = Some LONGITUDE,
      doc_constituents = Some [''m2'', ''s2''], doc_amplitude = Some [3 / 10, 1 / 10, 1 / 5],
      doc_phase = Some [0, 0]\<rparr>"

text \<open>A world at 2026-11-03T21:30:45.5 UTC in which the library is installed and the
  constants file holds the given document.\<close>

definition sample_world :: "constants_doc \<Rightarrow> world" where
  "sample_world doc =
     \<lparr>utcnow = 3587482891 / 2,
      import_pyTMD = None,
      compute_tide_corrections = sample_corrections,
      cache_file_exists = True,
      cache_file_load = Inr doc,
      predict_drift = sample_drift\<rparr>"

text \<open>The same world without the constants file, and without the library.\<close>

definition no_file_world :: world where
  "no_file_world =
     (sample_world sample_doc)\<lparr>cache_file_exists := False, cache_file_load := Inl OSError\<rparr>"

definition no_library_world :: world where
  "no_library_world = (sample_world sample_doc)\<lparr>import_pyTMD := Some ImportError\<rparr>"

text \<open>Worlds in which the GOT4.10 model files are missing, the constants file is not
  valid JSON, and the synthesizer raises.\<close>

definition no_model_files_world :: world where
  "no_model_files_world =
     (sample_world sample_doc)\<lparr>compute_tide_corrections := (\<lambda>lons lats delta_times. Inl OSError)\<rparr>"

definition corrupt_file_world :: world where
  "corrupt_file_world = (sample_world sample_doc)\<lparr>cache_file_load := Inl JSONDecodeError\<rparr>"

definition failing_drift_world :: world where
  "failing_drift_world =
     (sample_world sample_doc)\<lparr>predict_drift := (\<lambda>t hc names. Inl LibraryError)\<rparr>"

text \<open>Records that lack a key: the latitude, and the amplitudes.\<close>

definition no_latitude_doc :: constants_doc where
  "no_latitude_doc = sample_doc\<lparr>doc_latitude := None\<rparr>"

definition no_amplitude_doc :: constants_doc where
  "no_amplitude_doc = sample_doc\<lparr>doc_amplitude := None\<rparr>"

text \<open>Every import failure of the world is an instance of \<open>Exception\<close>.\<close>

definition import_raises_Exception :: "world \<Rightarrow> bool" where
  "import_raises_Exception w \<longleftrightarrow> (\<forall>e. import_pyTMD w = Some e \<longrightarrow> is_Exception e)"

text \<open>Adding \<open>X\<close> to every entry of a returned series.\<close>

definition shift_result :: "int \<Rightarrow> exn + int list option \<Rightarrow> exn + int list option" where
  "shift_result X r = map_sum id (map_option (map (\<lambda>y. y + X))) r"

subsection \<open>Describing an extraction\<close>

text \<open>A constituent is kept when its model file exists and the library call returns.\<close>

definition kept :: "extract_world \<Rightarrow> string \<Rightarrow> bool" where
  "kept w c \<longleftrightarrow>
     model_file_exists w c \<and> (case FES_extract_constants w c of Inl e \<Rightarrow> False | Inr v \<Rightarrow> True)"

text \<open>The amplitude and the phase that the loop stores for a constituent.\<close>

definition extracted_amplitude :: "extract_world \<Rightarrow> string \<Rightarrow> real" where
  "extracted_amplitude w c =
     (case FES_extract_constants w c of Inl e \<Rightarrow> 0 | Inr (amp, ph) \<Rightarrow> unmask amp)"

definition extracted_phase :: "extract_world \<Rightarrow> string \<Rightarrow> real" where
  "extracted_phase w c =
     (case FES_extract_constants w c of Inl e \<Rightarrow> 0 | Inr (amp, ph) \<Rightarrow> unmask ph)"

text \<open>The record after the loop has stored the given constituents.\<close>

definition extend :: "extract_world \<Rightarrow> string list \<Rightarrow> results \<Rightarrow> results" where
  "extend w cs r =
     r\<lparr>constituents := constituents r @ cs,
       amplitude := amplitude r @ map (extracted_amplitude w) cs,
       phase := phase r @ map (extracted_phase w) cs\<rparr>"

text \<open>The library raises nothing but instances of \<open>Exception\<close>.\<close>

definition raises_only_Exceptions :: "extract_world \<Rightarrow> bool" where
  "raises_only_Exceptions w \<longleftrightarrow>
     (\<forall>c e. FES_extract_constants w c = Inl e \<longrightarrow> is_Exception e)"

definition no_write_faults :: write_faults where
  "no_write_faults = \<lparr>mkdir_fault = None, open_fault = None, dump_fault = None\<rparr>"

text \<open>A world in which every model file exists and the interpolation at the point is
  masked for \<open>m2\<close> alone; and one in which the model file of \<open>m2\<close> is missing and the
  library raises for \<open>s2\<close>.\<close>

definition masked_world :: extract_world where
  "masked_world =
     \<lparr>import_pyTMD_io_FES = None,
      model_file_exists = (\<lambda>c. True),
      FES_extract_constants =
        (\<lambda>c. if c = ''m2'' then Inr (None, None) else Inr (Some (1 / 10), Some 10)),
      json_dump = (\<lambda>r. concat (constituents r))\<rparr>"

definition partial_world :: extract_world where
  "partial_world =
     \<lparr>import_pyTMD_io_FES = None,
      model_file_exists = (\<lambda>c. c \<noteq> ''m2''),
      FES_extract_constants =
        (\<lambda>c. if c = ''s2'' then Inl LibraryError else Inr (Some (1 / 10), Some 10)),
      json_dump = (\<lambda>r. concat (constituents r))\<rparr>"

subsection \<open>Sample disks and faults\<close>

text \<open>The device is full: nothing reaches the file after it has been opened.\<close>

definition disk_full :: write_faults where
  "disk_full = \<lparr>mkdir_fault = None, open_fault = None, dump_fault = Some (0, OSError)\<rparr>"

text \<open>A disk that holds an earlier constants record, and one that holds an earlier
  response cache.\<close>

definition old_record_disk :: "string \<Rightarrow> disk" where
  "old_record_disk base = Map.empty(FES2022_CACHE_FILE base \<mapsto> ''old record'')"

definition old_cache_disk :: "string \<Rightarrow> disk" where
  "old_cache_disk base = Map.empty(CACHE_FILE base \<mapsto> ''old'')"

text \<open>Some step of a save fails.\<close>

definition faulty :: "save_faults \<Rightarrow> bool" where
  "faulty f \<longleftrightarrow>
     makedirs_fault f \<noteq> None \<or> mkstemp_fault f \<noteq> None \<or> write_fault f \<noteq> None
     \<or> replace_fault f \<noteq> None"

definition no_save_faults :: save_faults where
  "no_save_faults =
     \<lparr>makedirs_fault = None, mkstemp_fault = None, write_fault = None, replace_fault = None\<rparr>"

text \<open>The write fails with \<open>OSError\<close> after two characters.\<close>

definition write_fails :: save_faults where
  "write_fails = no_save_faults\<lparr>write_fault := Some (2, OSError)\<rparr>"

section \<open>Properties\<close>

subsection \<open>Rounding\<close>

lemma c_round_rhafz: "c_round x = round_half_away_from_zero x"
  by (simp add: c_round_def round_half_away_from_zero_def ceiling_def)

lemma c_round_near: "\<bar>x - of_int (c_round x)\<bar> \<le> 1 / 2"
proof (cases "0 \<le> x")
  case True
  have "\<bar>x - of_int \<lfloor>x + 1 / 2\<rfloor>\<bar> \<le> 1 / 2" by linarith
  with True show ?thesis by (simp only: c_round_def if_True)
next
  case False
  have "\<bar>x - of_int \<lceil>x - 1 / 2\<rceil>\<bar> \<le> 1 / 2" by linarith
  with False show ?thesis by (simp only: c_round_def if_False)
qed

lemma py_round_no_tie:
  "\<bar>x - of_int (c_round x)\<bar> \<noteq> 1 / 2 \<Longrightarrow> py_round x = c_round x"
  by (simp add: py_round_def Let_def)

text \<open>A tie is a number halfway between its floor and the next integer.\<close>

lemma tie_form:
  assumes "\<bar>x - of_int (c_round x)\<bar> = 1 / 2"
  shows "x = of_int \<lfloor>x\<rfloor> + 1 / 2"
proof (cases "0 \<le> x")
  case True
  define m where "m = \<lfloor>x + 1 / 2\<rfloor>"
  have "\<bar>x - of_int m\<bar> = 1 / 2" using assms True by (simp only: c_round_def if_True m_def)
  moreover have "of_int m \<le> x + 1 / 2" "x + 1 / 2 < of_int m + 1" unfolding m_def by linarith+
  ultimately have x: "x = of_int m - 1 / 2" by linarith
  then have "\<lfloor>x\<rfloor> = m - 1" by (intro floor_unique) simp_all
  with x show ?thesis by simp
next
  case False
  define m where "m = \<lceil>x - 1 / 2\<rceil>"
  have "\<bar>x - of_int m\<bar> = 1 / 2" using assms False by (simp only: c_round_def if_False m_def)
  moreover have "x - 1 / 2 \<le> of_int m" "of_int m < x - 1 / 2 + 1" unfolding m_def by linarith+
  ultimately have x: "x = of_int m + 1 / 2" by linarith
  then have "\<lfloor>x\<rfloor> = m" by (intro floor_unique) simp_all
  with x show ?thesis by simp
qed

lemma py_round_tie:
  assumes "\<bar>x - of_int (c_round x)\<bar> = 1 / 2"
  shows "py_round x = (if even \<lfloor>x\<rfloor> then \<lfloor>x\<rfloor> else \<lfloor>x\<rfloor> + 1)"
proof -
  define m where "m = \<lfloor>x\<rfloor>"
  have x: "x = of_int m + 1 / 2" using tie_form[OF assms] m_def by simp
  have p: "py_round x = 2 * c_round (x / 2)" using assms by (simp add: py_round_def Let_def)
  show ?thesis
  proof (cases "even m")
    case True
    then obtain j where j: "m = 2 * j" by (elim evenE)
    have "x / 2 = of_int j + 1 / 4" using x j by simp
    then have "\<lfloor>x / 2 + 1 / 2\<rfloor> = j" and "\<lceil>x / 2 - 1 / 2\<rceil> = j" by linarith+
    then have "c_round (x / 2) = j" unfolding c_round_def by simp
    then show ?thesis using p True j m_def by simp
  next
    case False
    then obtain j where j: "m = 2 * j + 1" by (elim oddE)
    have "x / 2 = of_int j + 3 / 4" using x j by simp
    then have "\<lfloor>x / 2 + 1 / 2\<rfloor> = j + 1" and "\<lceil>x / 2 - 1 / 2\<rceil> = j + 1" by linarith+
    then have "c_round (x / 2) = j + 1" unfolding c_round_def by simp
    then show ?thesis using p False j m_def by simp
  qed
qed

lemma py_round_near: "\<bar>x - of_int (py_round x)\<bar> \<le> 1 / 2"
proof (cases "\<bar>x - of_int (c_round x)\<bar> = 1 / 2")
  case True
  have "x = of_int \<lfloor>x\<rfloor> + 1 / 2" by (rule tie_form[OF True])
  then show ?thesis using py_round_tie[OF True] by (cases "even \<lfloor>x\<rfloor>") auto
next
  case False
  then show ?thesis using c_round_near[of x] by (simp add: py_round_no_tie)
qed

lemma py_round_tie_even:
  assumes "\<bar>x - of_int (py_round x)\<bar> = 1 / 2"
  shows "even (py_round x)"
proof (cases "\<bar>x - of_int (c_round x)\<bar> = 1 / 2")
  case True
  then show ?thesis using py_round_tie[OF True] by auto
next
  case False
  then show ?thesis using assms by (simp add: py_round_no_tie)
qed

lemmas fl_eval = fl_def exponent_def round_to_even_def Let_def bit_length.simps

lemma fl_12_5: "fl (1 / 8 * 100) = 25 / 2"
  by (simp add: fl_eval)

lemma fl_30: "fl (3 / 10 * 100) = 30"
  by (simp add: fl_eval)

lemma fl_60: "fl (3 / 5 * 100) = 60"
  by (simp add: fl_eval)

text \<open>The double written \<^verbatim>\<open>0.3\<close>, and its product with 100.\<close>

lemma fl_0_3: "fl (3 / 10) = 5404319552844595 / 18014398509481984"
  by (simp add: fl_eval)

lemma fl_0_3_times_100: "fl (fl (3 / 10) * 100) = 30"
  by (simp add: fl_eval)

text \<open>The double written \<^verbatim>\<open>0.165\<close> lies above 0.165, yet its product with 100 rounds to
  the tie 16.5.\<close>

lemma fl_0_165_times_100: "fl (fl (33 / 200) * 100) = 33 / 2"
  by (simp add: fl_eval)

lemma py_round_values:
  "py_round (25 / 2) = 12" "py_round (33 / 2) = 16" "py_round 30 = 30" "py_round 60 = 60"
  by (simp_all add: py_round_def c_round_def Let_def)

lemma tide_cm_1_8: "tide_cm 45 (1 / 8) = 57"
  by (simp only: tide_cm_def fl_12_5 py_round_values)

lemma tide_cm_3_10: "tide_cm 45 (3 / 10) = 75"
  by (simp only: tide_cm_def fl_30 py_round_values)

lemma tide_cm_3_5: "tide_cm 45 (3 / 5) = 105"
  by (simp only: tide_cm_def fl_60 py_round_values)

lemma tide_cm_0_1_8: "tide_cm 0 (1 / 8) = 12"
  by (simp only: tide_cm_def fl_12_5 py_round_values)

lemma tide_cm_0_165: "tide_cm 45 (fl (33 / 200)) = 61"
  by (simp only: tide_cm_def fl_0_165_times_100 py_round_values)

lemma to_tide_cm_Some:
  "to_tide_cm offset tide = Inr (Some cm) \<Longrightarrow> cm = map (tide_cm offset) tide"
  by (auto simp: to_tide_cm_def Let_def split: if_splits)

text \<open>
  Claim C2, as stated: every entry of the returned series is
  \<open>round_half_away_from_zero (h * 100) + datum_offset_cm\<close> for the synthesized height
  \<open>h\<close>. It fails at a tie: for \<open>h = 0.125\<close> m the product is \<open>12.5\<close>, Python's
  \<^verbatim>\<open>round\<close> gives the even neighbour \<open>12\<close>, and the entry is \<open>57\<close>, not \<open>58\<close>.
\<close>

theorem tide_cm_not_half_away_from_zero:
  "tide_cm 45 (1 / 8) \<noteq> round_half_away_from_zero (1 / 8 * 100) + 45"
  by (simp add: tide_cm_1_8 round_half_away_from_zero_def)

text \<open>
  Claim C2, amended: for every height \<open>h\<close> of the synthesizer, the corresponding entry of
  the returned series is \<open>n + datum_offset_cm\<close>, where \<open>n\<close> is the double-precision
  product \<open>p = fl (h * 100)\<close> rounded to the nearest integer with a tie going to the even
  neighbour (Python's \<^verbatim>\<open>round\<close>); \<open>n\<close> is \<open>round_half_away_from_zero p\<close> whenever \<open>p\<close>
  is not halfway between two integers. For a single constituent of amplitude 0.30 m and
  phase 0, at argument 0 and with nodal factor 1, the value before the offset is 30 and
  the entry with offset 45 is 75.
\<close>

theorem tide_cm_rounds_half_to_even:
  assumes "to_tide_cm offset tide = Inr (Some cm)" and "i < length tide"
  shows "cm ! i = py_round (fl (tide ! i * 100)) + offset
    \<and> \<bar>fl (tide ! i * 100) - of_int (cm ! i - offset)\<bar> \<le> 1 / 2
    \<and> (\<bar>fl (tide ! i * 100) - of_int (cm ! i - offset)\<bar> = 1 / 2 \<longrightarrow> even (cm ! i - offset))
    \<and> (\<bar>fl (tide ! i * 100) - of_int (round_half_away_from_zero (fl (tide ! i * 100)))\<bar>
           \<noteq> 1 / 2
         \<longrightarrow> cm ! i = round_half_away_from_zero (fl (tide ! i * 100)) + offset)
    \<and> tide_cm 0 (harmonic_term 1 (fl (3 / 10)) 0 0) = 30
    \<and> tide_cm 45 (harmonic_term 1 (fl (3 / 10)) 0 0) = 75"
proof -
  let ?p = "fl (tide ! i * 100)"
  have cm: "cm ! i = py_round ?p + offset"
    using to_tide_cm_Some[OF assms(1)] assms(2) by (simp add: tide_cm_def)
  have d: "cm ! i - offset = py_round ?p" using cm by simp
  have near: "\<bar>?p - of_int (cm ! i - offset)\<bar> \<le> 1 / 2"
    unfolding d by (rule py_round_near)
  have tie: "\<bar>?p - of_int (cm ! i - offset)\<bar> = 1 / 2 \<longrightarrow> even (cm ! i - offset)"
    unfolding d using py_round_tie_even by blast
  have away: "\<bar>?p - of_int (round_half_away_from_zero ?p)\<bar> \<noteq> 1 / 2
         \<longrightarrow> cm ! i = round_half_away_from_zero ?p + offset"
    using cm py_round_no_tie[of ?p] by (simp add: c_round_rhafz)
  have h: "harmonic_term 1 (fl (3 / 10)) 0 0 = fl (3 / 10)"
    by (simp add: harmonic_term_def)
  have ex: "tide_cm 0 (harmonic_term 1 (fl (3 / 10)) 0 0) = 30"
       "tide_cm 45 (harmonic_term 1 (fl (3 / 10)) 0 0) = 75"
    unfolding h by (simp_all only: tide_cm_def fl_0_3_times_100 py_round_values)
  show ?thesis using cm near tie away ex by blast
qed

theorem tide_cm_rounds_half_to_even_witness:
  "to_tide_cm 45 [1 / 8, fl (33 / 200)] = Inr (Some [57, 61])
   \<and> (0::nat) < length [1 / 8, fl (33 / 200)]
   \<and> [57, 61 :: int] ! 0 = py_round (fl ([1 / 8, fl (33 / 200)] ! 0 * 100)) + 45
   \<and> even ([57, 61 :: int] ! 0 - 45)
   \<and> fl (1 / 8 * 100) = 25 / 2 \<and> fl (fl (33 / 200) * 100) = 33 / 2"
proof -
  have h: "to_tide_cm 45 [1 / 8, fl (33 / 200)] = Inr (Some [57, 61])"
    by (simp add: to_tide_cm_def tide_cm_1_8 tide_cm_0_165)
  have i: "(0::nat) < length [1 / 8, fl (33 / 200)]" by simp
  show ?thesis
    using tide_cm_rounds_half_to_even[OF h i] h fl_12_5 fl_0_165_times_100 by simp
qed

subsection \<open>The datum offset\<close>

lemma to_tide_cm_shift: "to_tide_cm X tide = shift_result X (to_tide_cm 0 tide)"
  by (simp add: to_tide_cm_def tide_cm_def shift_result_def Let_def)

lemma except_Exception_shift:
  "except_Exception (shift_result X r) = shift_result X (except_Exception r)"
  by (cases r) (simp_all add: except_Exception_def shift_result_def)

lemma got410_body_shift:
  "compute_tides_got410_body (cfg\<lparr>tide_datum_offset_cm := X\<rparr>) w =
   shift_result X (compute_tides_got410_body (cfg\<lparr>tide_datum_offset_cm := 0\<rparr>) w)"
  by (simp add: compute_tides_got410_body_def Let_def to_tide_cm_shift[where X=X]
      split: option.splits sum.splits) (simp add: shift_result_def)

lemma got410_shift:
  "compute_tides_got410 (cfg\<lparr>tide_datum_offset_cm := X\<rparr>) w =
   shift_result X (compute_tides_got410 (cfg\<lparr>tide_datum_offset_cm := 0\<rparr>) w)"
  by (simp add: compute_tides_got410_def got410_body_shift[where cfg=cfg and X=X]
      except_Exception_shift)

lemma fes2022_predict_shift:
  "fes2022_predict (cfg\<lparr>tide_datum_offset_cm := X\<rparr>) w c =
   shift_result X (fes2022_predict (cfg\<lparr>tide_datum_offset_cm := 0\<rparr>) w c)"
  by (simp add: fes2022_predict_def Let_def to_tide_cm_shift[where X=X]
      split: option.splits sum.splits) (simp add: shift_result_def)

lemma fes2022_body_shift:
  "compute_tides_fes2022_body (cfg\<lparr>tide_datum_offset_cm := X\<rparr>) w cached =
   map_prod (shift_result X) id
     (compute_tides_fes2022_body (cfg\<lparr>tide_datum_offset_cm := 0\<rparr>) w cached)"
  by (simp add: compute_tides_fes2022_body_def fes2022_predict_shift[where cfg=cfg and X=X]
      split: option.splits sum.splits prod.splits) (simp add: shift_result_def)

lemma fes2022_shift:
  "compute_tides_fes2022 (cfg\<lparr>tide_datum_offset_cm := X\<rparr>) w cached =
   map_prod (shift_result X) id
     (compute_tides_fes2022 (cfg\<lparr>tide_datum_offset_cm := 0\<rparr>) w cached)"
  by (simp add: compute_tides_fes2022_def fes2022_body_shift[where cfg=cfg and X=X]
      except_Exception_shift split: prod.splits)

lemma compute_tides_shift:
  "compute_tides (cfg\<lparr>tide_datum_offset_cm := X\<rparr>) w cached =
   map_prod (shift_result X) id (compute_tides (cfg\<lparr>tide_datum_offset_cm := 0\<rparr>) w cached)"
  by (simp add: compute_tides_def fes2022_shift[where cfg=cfg and X=X]
      got410_shift[where cfg=cfg and X=X])

text \<open>
  Claim C3: two prediction runs that see the same world (the same clock, the same
  constants, the same synthesized heights), one with datum offset \<open>X\<close> and one with
  datum offset 0: whenever the run with offset 0 returns a series, the run with offset
  \<open>X\<close> returns a series of the same length, and at every index the difference of the two
  entries is exactly \<open>X\<close>. This holds for both paths, through the dispatcher.
\<close>

theorem datum_offset_is_exact_shift:
  assumes "compute_tides (cfg\<lparr>tide_datum_offset_cm := 0\<rparr>) w cached = (Inr (Some ys), cached')"
  shows "\<exists>xs. compute_tides (cfg\<lparr>tide_datum_offset_cm := X\<rparr>) w cached = (Inr (Some xs), cached')
           \<and> length xs = length ys \<and> (\<forall>t < length ys. xs ! t - ys ! t = X)"
  using assms by (simp add: compute_tides_shift[where cfg=cfg and X=X] shift_result_def)

subsection \<open>The sample worlds, evaluated\<close>

lemma sample_contract: "one_height_per_timestamp (sample_world doc)"
  by (auto simp: one_height_per_timestamp_def sample_world_def sample_corrections_def
      sample_drift_def split: if_splits)

lemma got410_sample:
  "compute_tides_got410 (app_config None) (sample_world sample_doc)
   = Inr (Some (replicate 168 57))"
  by (simp add: compute_tides_got410_def compute_tides_got410_body_def except_Exception_def
      Let_def sample_world_def sample_corrections_def app_config_def FORECAST_HOURS_def
      TIDE_DATUM_OFFSET_CM_def to_tide_cm_def tide_cm_1_8 got410_delta_times_def comp_def
      map_replicate_const)

lemma hc_single_sample: "hc_single [3 / 10] [0] = Inr [3 / 10]"
  by (simp add: hc_single_def np_multiply_def deg2rad_def)

lemma fes2022_sample:
  "compute_tides_fes2022 (app_config (Some ''FES2022'')) (sample_world sample_doc) None
   = (Inr (Some (replicate 168 75)), Some sample_doc)"
  by (simp add: compute_tides_fes2022_def compute_tides_fes2022_body_def load_constants_def
      fes2022_predict_def subscript_def except_Exception_def Let_def sample_doc_def
      sample_world_def sample_drift_def app_config_def FORECAST_HOURS_def
      TIDE_DATUM_OFFSET_CM_def to_tide_cm_def tide_cm_3_10 fes2022_t_def comp_def
      hc_single_sample list_ex_iff)

theorem datum_offset_is_exact_shift_witness:
  "compute_tides ((app_config None)\<lparr>tide_datum_offset_cm := 0\<rparr>) (sample_world sample_doc) None
     = (Inr (Some (replicate 168 12)), None)
   \<and> (\<exists>xs. compute_tides ((app_config None)\<lparr>tide_datum_offset_cm := 45\<rparr>)
               (sample_world sample_doc) None = (Inr (Some xs), None)
            \<and> length xs = 168 \<and> xs ! 0 - replicate 168 12 ! 0 = 45 \<and> xs ! 167 = 57)"
proof -
  have t: "tide_cm 0 (1 / 8) = 12"
    by (rule tide_cm_0_1_8)
  have h: "compute_tides ((app_config None)\<lparr>tide_datum_offset_cm := 0\<rparr>)
             (sample_world sample_doc) None = (Inr (Some (replicate 168 12)), None)"
    by (simp add: compute_tides_def compute_tides_got410_def compute_tides_got410_body_def
        except_Exception_def Let_def sample_world_def sample_corrections_def app_config_def
        FORECAST_HOURS_def TIDE_MODEL_NAME_def to_tide_cm_def t got410_delta_times_def comp_def
        map_replicate_const)
  show ?thesis
    using h datum_offset_is_exact_shift[OF h, of 45] by auto
qed

subsection \<open>The forecast grid\<close>

lemma floor_shift_hours: "\<lfloor>(x - 3600 * of_int m) / 3600\<rfloor> = \<lfloor>x / (3600::real)\<rfloor> - m"
proof -
  have "(x - 3600 * of_int m) / 3600 = x / 3600 - of_int m" by (simp add: diff_divide_distrib)
  then show ?thesis by (simp only: floor_diff_of_int)
qed

lemma got410_base: "epoch + floordiv (total_seconds now epoch) 3600 * 3600 = floor_to_hour now"
proof -
  have "total_seconds now epoch = now - 3600 * of_int 262968"
    by (simp add: total_seconds_def epoch_def)
  then have "\<lfloor>total_seconds now epoch / 3600\<rfloor> = \<lfloor>now / 3600\<rfloor> - 262968"
    by (simp only: floor_shift_hours)
  then show ?thesis by (simp add: floordiv_def floor_to_hour_def epoch_def algebra_simps)
qed

lemma got410_grid: "map got410_instant (got410_delta_times n now) = hourly_timestamps n now"
proof -
  have "got410_instant (floordiv (total_seconds now epoch) 3600 * 3600 + of_nat i * 3600)
        = floor_to_hour now + of_nat i * 3600" for i
    using got410_base[of now] by (simp add: got410_instant_def)
  then show ?thesis by (simp add: got410_delta_times_def hourly_timestamps_def Let_def comp_def)
qed

lemma floor_to_hour_is_floor:
  "floor_to_hour now \<le> now \<and> now < floor_to_hour now + 3600
   \<and> floor_to_hour now = 3600 * of_int \<lfloor>now / 3600\<rfloor>"
proof -
  have "of_int \<lfloor>now / 3600\<rfloor> \<le> now / 3600" "now / 3600 < of_int \<lfloor>now / 3600\<rfloor> + 1" by linarith+
  then show ?thesis by (simp add: floor_to_hour_def field_simps)
qed

lemma got410_Some:
  assumes "compute_tides_got410 cfg w = Inr (Some xs)"
  shows "\<exists>tide. compute_tide_corrections w (replicate (forecast_hours cfg) LONGITUDE)
            (replicate (forecast_hours cfg) LATITUDE)
            (got410_delta_times (forecast_hours cfg) (utcnow w)) = Inr tide
          \<and> xs = map (tide_cm (tide_datum_offset_cm cfg)) tide"
  using assms
  by (auto simp: compute_tides_got410_def compute_tides_got410_body_def except_Exception_def Let_def
      dest: to_tide_cm_Some split: option.splits sum.splits if_splits)

lemma fes2022_predict_Some:
  assumes "fes2022_predict cfg w c = Inr (Some xs)"
  shows "\<exists>constituents amp ph hc1 tide.
           doc_constituents c = Some constituents \<and> doc_amplitude c = Some amp \<and> doc_phase c = Some ph
         \<and> hc_single amp ph = Inr hc1
         \<and> predict_drift w (fes2022_t (forecast_hours cfg) (utcnow w))
              (replicate (forecast_hours cfg) hc1) constituents = Inr tide
         \<and> xs = map (tide_cm (tide_datum_offset_cm cfg)) tide"
  using assms
  by (auto simp: fes2022_predict_def subscript_def Let_def
      dest: to_tide_cm_Some split: option.splits sum.splits if_splits)

lemma fes2022_Some:
  assumes "compute_tides_fes2022 cfg w cached = (Inr (Some xs), cached')"
  shows "\<exists>c. fes2022_predict cfg w c = Inr (Some xs)"
  using assms
  by (auto simp: compute_tides_fes2022_def compute_tides_fes2022_body_def except_Exception_def
      split: option.splits sum.splits if_splits prod.splits)

lemma hourly_timestamps_nth:
  "i < H \<Longrightarrow> hourly_timestamps H now ! i = floor_to_hour now + of_nat i * 3600"
  by (simp add: hourly_timestamps_def)

lemma got410_first:
  assumes "0 < n"
  shows "got410_instant (got410_delta_times n now ! 0) = floor_to_hour now"
proof -
  have "got410_instant (got410_delta_times n now ! 0)
        = map got410_instant (got410_delta_times n now) ! 0"
    using assms by (simp add: got410_delta_times_def Let_def del: upt_Suc)
  also have "\<dots> = hourly_timestamps n now ! 0" by (simp only: got410_grid)
  also have "\<dots> = floor_to_hour now" using assms by (simp add: hourly_timestamps_nth)
  finally show ?thesis .
qed

text \<open>With a synthesizer that returns one height per timestamp, a returned series has
  \<open>forecast_hours\<close> entries in either path.\<close>

lemma returned_series_length:
  assumes "one_height_per_timestamp w"
  shows "compute_tides_got410 cfg w = Inr (Some xs) \<Longrightarrow> length xs = forecast_hours cfg"
    and "compute_tides_fes2022 cfg w cached = (Inr (Some ys), cached')
         \<Longrightarrow> length ys = forecast_hours cfg"
proof -
  let ?H = "forecast_hours cfg"
  show "length xs = ?H" if h: "compute_tides_got410 cfg w = Inr (Some xs)"
  proof -
    obtain tide where t: "compute_tide_corrections w (replicate ?H LONGITUDE)
                  (replicate ?H LATITUDE) (got410_delta_times ?H (utcnow w)) = Inr tide"
      and x: "xs = map (tide_cm (tide_datum_offset_cm cfg)) tide"
      using got410_Some[OF h] by blast
    have "length tide = length (got410_delta_times ?H (utcnow w))"
      using assms t unfolding one_height_per_timestamp_def by blast
    then show ?thesis using x by (simp add: got410_delta_times_def Let_def)
  qed
  show "length ys = ?H" if h: "compute_tides_fes2022 cfg w cached = (Inr (Some ys), cached')"
  proof -
    obtain c where "fes2022_predict cfg w c = Inr (Some ys)" using fes2022_Some[OF h] by blast
    then obtain hc names tide where
      t: "predict_drift w (fes2022_t ?H (utcnow w)) hc names = Inr tide"
      and y: "ys = map (tide_cm (tide_datum_offset_cm cfg)) tide"
      using fes2022_predict_Some by blast
    have "length tide = length (fes2022_t ?H (utcnow w))"
      using assms t unfolding one_height_per_timestamp_def by blast
    then show ?thesis using y by (simp add: fes2022_t_def Let_def)
  qed
qed

text \<open>The first entry of the FES2022 grid, and its value at 2020-01-01T01:00:00 UTC
  (1577840400) and at 2036-11-09T02:00:00 UTC (2109808800), step by step in doubles.\<close>

lemma fes2022_t_first:
  "0 < n \<Longrightarrow> fes2022_t n now ! 0 =
     fl (fl (floordiv (fl (fl (total_seconds now epoch_1992) / 86400)) (fl (1 / 24)) * fl (1 / 24))
         + fl 0)"
  by (simp add: fes2022_t_def Let_def del: upt_Suc)

lemma fl_0: "fl 0 = 0"
  by (simp add: fl_def)

lemma fl_1_24: "fl (1 / 24) = 6004799503160661 / 144115188075855872"
  by (simp add: fl_eval)

lemma seconds_2020: "fl (total_seconds 1577840400 epoch_1992) = 883616400"
  by (simp add: total_seconds_def epoch_1992_def fl_eval)

lemma days_2020: "fl (883616400 / 86400) = 5622375615124821 / 549755813888"
  by (simp add: fl_eval)

text \<open>The exact quotient is \<open>245449\<close> hours; the double nearest to it in days lies below
  \<open>245449\<close> times the double nearest to one twenty-fourth, so the floor is \<open>245448\<close>.\<close>

lemma hours_2020:
  "floordiv (5622375615124821 / 549755813888) (6004799503160661 / 144115188075855872) = 245448"
  by (simp add: floordiv_def)

lemma base_2020: "fl (245448 * (6004799503160661 / 144115188075855872)) = 10227"
  by (simp add: fl_eval)

lemma first_2020: "fl (10227 + 0) = 10227"
  by (simp add: fl_eval)

lemma fes2022_t_2020: "fes2022_t FORECAST_HOURS 1577840400 ! 0 = 10227"
  by (simp only: FORECAST_HOURS_def fes2022_t_first[of 168, simplified] seconds_2020 days_2020
      fl_1_24 hours_2020 base_2020 fl_0 first_2020)

lemma seconds_2036: "fl (total_seconds 2109808800 epoch_1992) = 1415584800"
  by (simp add: total_seconds_def epoch_1992_def fl_eval)

lemma days_2036: "fl (1415584800 / 86400) = 4503622533862741 / 274877906944"
  by (simp add: fl_eval)

lemma hours_2036:
  "floordiv (4503622533862741 / 274877906944) (6004799503160661 / 144115188075855872) = 393217"
  by (simp add: floordiv_def)

lemma base_2036:
  "fl (393217 * (6004799503160661 / 144115188075855872)) = 2251805540308309 / 137438953472"
  by (simp add: fl_eval)

lemma first_2036:
  "fl (2251805540308309 / 137438953472 + 0) = 2251805540308309 / 137438953472"
  by (simp add: fl_eval)

lemma fes2022_t_2036:
  "fes2022_t FORECAST_HOURS 2109808800 ! 0 = 2251805540308309 / 137438953472"
  by (simp only: FORECAST_HOURS_def fes2022_t_first[of 168, simplified] seconds_2036 days_2036
      fl_1_24 hours_2036 base_2036 fl_0 first_2036)

text \<open>
  Claim C1: in both paths the grid of a prediction starts at the current UTC time floored
  to the hour and goes on in steps of one hour. The GOT4.10 path does so at every
  instant. The FES2022 path does not: it floors a number of days by the double nearest
  to one twenty-fourth, which is smaller than one twenty-fourth. At
  2020-01-01T01:00:00 UTC, exactly on the hour, its grid starts at day 10227 after
  1992-01-01, which is 2020-01-01T00:00:00, one hour before the floored current hour;
  at 2036-11-09T02:00:00 UTC it starts just before 01:00:00. The GOT4.10 grid starts at
  the current hour at both instants.
\<close>

theorem fes2022_grid_starts_an_hour_early:
  "map got410_instant (got410_delta_times n now) = hourly_timestamps n now
   \<and> floor_to_hour 1577840400 = 1577840400
   \<and> got410_instant (got410_delta_times FORECAST_HOURS 1577840400 ! 0) = 1577840400
   \<and> fes2022_t FORECAST_HOURS 1577840400 ! 0 = 10227
   \<and> fes2022_instant (fes2022_t FORECAST_HOURS 1577840400 ! 0) = 1577840400 - 3600
   \<and> floor_to_hour 2109808800 = 2109808800
   \<and> got410_instant (got410_delta_times FORECAST_HOURS 2109808800 ! 0) = 2109808800
   \<and> fes2022_instant (fes2022_t FORECAST_HOURS 2109808800 ! 0) < 2109808800 - 3600"
proof -
  have a: "floor_to_hour 1577840400 = 1577840400" "floor_to_hour 2109808800 = 2109808800"
    by (simp_all add: floor_to_hour_def)
  have g: "got410_instant (got410_delta_times FORECAST_HOURS 1577840400 ! 0) = 1577840400"
      "got410_instant (got410_delta_times FORECAST_HOURS 2109808800 ! 0) = 2109808800"
    using a by (simp_all add: got410_first FORECAST_HOURS_def)
  have f: "fes2022_instant (fes2022_t FORECAST_HOURS 1577840400 ! 0) = 1577840400 - 3600"
    by (simp add: fes2022_t_2020 fes2022_instant_def epoch_1992_def)
  have h: "fes2022_instant (fes2022_t FORECAST_HOURS 2109808800 ! 0) < 2109808800 - 3600"
    by (simp add: fes2022_t_2036 fes2022_instant_def epoch_1992_def)
  show ?thesis using got410_grid[of n now] a g fes2022_t_2020 f h by simp
qed

subsection \<open>Failures become \<open>None\<close>\<close>

lemma except_Exception_no_Exception:
  "except_Exception r = Inl e \<Longrightarrow> \<not> is_Exception e"
  by (auto simp: except_Exception_def split: sum.splits if_splits)

lemma fes2022_no_file:
  assumes "\<not> cache_file_exists w" and "\<forall>e. import_pyTMD w = Some e \<longrightarrow> is_Exception e"
  shows "compute_tides_fes2022 cfg w None = (Inr None, None)"
  using assms
  by (auto simp: compute_tides_fes2022_def compute_tides_fes2022_body_def load_constants_def
      except_Exception_def split: option.splits)

lemma fes2022_calls_no_file:
  assumes "\<forall>w \<in> set ws. \<not> cache_file_exists w \<and> (\<forall>e. import_pyTMD w = Some e \<longrightarrow> is_Exception e)"
  shows "fes2022_calls cfg ws None = replicate (length ws) (Inr None)"
  using assms
proof (induction ws)
  case Nil
  then show ?case by simp
next
  case (Cons w ws)
  then have "compute_tides_fes2022 cfg w None = (Inr None, None)"
    by (intro fes2022_no_file) auto
  with Cons show ?case by simp
qed

lemma fes2022_served:
  assumes "import_pyTMD w = None" and "predict_drift w = sample_drift"
    and "doc_constituents c = Some [''m2'']" and "doc_amplitude c = Some [3 / 10]"
    and "doc_phase c = Some [0]"
  shows "compute_tides_fes2022 (app_config (Some ''FES2022'')) w (Some c)
         = (Inr (Some (replicate 168 75)), Some c)"
  using assms
  by (simp add: compute_tides_fes2022_def compute_tides_fes2022_body_def load_constants_def
      fes2022_predict_def subscript_def except_Exception_def Let_def
      sample_drift_def app_config_def FORECAST_HOURS_def
      TIDE_DATUM_OFFSET_CM_def to_tide_cm_def tide_cm_3_10 fes2022_t_def comp_def
      hc_single_sample list_ex_iff)

lemma no_latitude_first:
  "compute_tides_fes2022 (app_config (Some ''FES2022'')) (sample_world no_latitude_doc) None
   = (Inr None, Some no_latitude_doc)"
  by (simp add: compute_tides_fes2022_def compute_tides_fes2022_body_def load_constants_def
      subscript_def except_Exception_def sample_world_def no_latitude_doc_def sample_doc_def)

text \<open>
  Claim C4, as stated: whenever the FES2022 path is selected and the constants file does
  not exist the prediction returns \<open>None\<close>, and every whole-resource failure (a missing
  or corrupt record among them) gives \<open>None\<close>. It fails once a record is in memory:
  \<^verbatim>\<open>_load_constants\<close> returns \<^verbatim>\<open>_cached_constants\<close> without looking at the file
  (lines 31 and 32). After one successful call, a call made when the file no longer
  exists returns a series. And a record without a latitude gives \<open>None\<close> on the first
  call only: the module variable is assigned before the log call raises, so the second
  call serves the record.
\<close>

theorem loaded_record_is_served_without_file:
  "\<not> cache_file_exists no_file_world
   \<and> fes2022_calls (app_config (Some ''FES2022'')) [sample_world sample_doc, no_file_world] None
       = [Inr (Some (replicate 168 75)), Inr (Some (replicate 168 75))]
   \<and> doc_latitude no_latitude_doc = None
   \<and> fes2022_calls (app_config (Some ''FES2022''))
         [sample_world no_latitude_doc, sample_world no_latitude_doc] None
       = [Inr None, Inr (Some (replicate 168 75))]"
proof -
  have a: "compute_tides_fes2022 (app_config (Some ''FES2022'')) no_file_world (Some sample_doc)
           = (Inr (Some (replicate 168 75)), Some sample_doc)"
    by (rule fes2022_served) (simp_all add: no_file_world_def sample_world_def sample_doc_def)
  have b: "compute_tides_fes2022 (app_config (Some ''FES2022'')) (sample_world no_latitude_doc)
             (Some no_latitude_doc) = (Inr (Some (replicate 168 75)), Some no_latitude_doc)"
    by (rule fes2022_served) (simp_all add: sample_world_def no_latitude_doc_def sample_doc_def)
  show ?thesis
    by (simp add: fes2022_sample a b no_latitude_first)
       (simp add: no_file_world_def sample_world_def no_latitude_doc_def)
qed

text \<open>
  Claim C4, amended: a process that has loaded no constants record gets \<open>None\<close> from
  every call of the FES2022 path made while the constants file does not exist. Every
  failure that raises an instance of \<open>Exception\<close> inside either path gives \<open>None\<close>: the
  library failing to import, the GOT4.10 computation raising (its model files missing),
  the constants file unreadable or not JSON, a key missing from the record, the
  synthesizer raising. No instance of \<open>Exception\<close> leaves either path or the dispatcher.
  A record that is invalid without raising is not detected.
\<close>

theorem exceptions_become_None:
  "((\<forall>w \<in> set ws. \<not> cache_file_exists w \<and> import_raises_Exception w)
      \<longrightarrow> fes2022_calls cfg ws None = replicate (length ws) (Inr None))
   \<and> (import_pyTMD w = Some e \<and> is_Exception e
      \<longrightarrow> compute_tides_got410 cfg w = Inr None
        \<and> compute_tides_fes2022 cfg w cached = (Inr None, cached))
   \<and> (import_pyTMD w = None
      \<and> compute_tide_corrections w (replicate (forecast_hours cfg) LONGITUDE)
          (replicate (forecast_hours cfg) LATITUDE)
          (got410_delta_times (forecast_hours cfg) (utcnow w)) = Inl e
      \<and> is_Exception e
      \<longrightarrow> compute_tides_got410 cfg w = Inr None)
   \<and> (import_pyTMD w = None \<and> cache_file_exists w \<and> cache_file_load w = Inl e
      \<and> is_Exception e
      \<longrightarrow> compute_tides_fes2022 cfg w None = (Inr None, None))
   \<and> (import_pyTMD w = None \<and> cache_file_exists w \<and> cache_file_load w = Inr c
      \<and> (doc_constituents c = None \<or> doc_latitude c = None \<or> doc_longitude c = None)
      \<longrightarrow> compute_tides_fes2022 cfg w None = (Inr None, Some c))
   \<and> (import_pyTMD w = None \<and> load_constants w cached = (Inr (Some c), cached')
      \<and> (doc_constituents c = None \<or> doc_amplitude c = None \<or> doc_phase c = None)
      \<longrightarrow> compute_tides_fes2022 cfg w cached = (Inr None, cached'))
   \<and> (import_pyTMD w = None \<and> load_constants w cached = (Inr (Some c), cached')
      \<and> doc_constituents c = Some names \<and> doc_amplitude c = Some amp \<and> doc_phase c = Some ph
      \<and> hc_single amp ph = Inr hc1
      \<and> predict_drift w (fes2022_t (forecast_hours cfg) (utcnow w))
          (replicate (forecast_hours cfg) hc1) names = Inl e
      \<and> is_Exception e
      \<longrightarrow> compute_tides_fes2022 cfg w cached = (Inr None, cached'))
   \<and> (fst (compute_tides_fes2022 cfg w cached) = Inl e \<longrightarrow> \<not> is_Exception e)
   \<and> (compute_tides_got410 cfg w = Inl e \<longrightarrow> \<not> is_Exception e)
   \<and> (fst (compute_tides cfg w cached) = Inl e \<longrightarrow> \<not> is_Exception e)"
proof -
  have 1: "(\<forall>w \<in> set ws. \<not> cache_file_exists w \<and> import_raises_Exception w)
      \<longrightarrow> fes2022_calls cfg ws None = replicate (length ws) (Inr None)"
    using fes2022_calls_no_file[of ws cfg] by (simp add: import_raises_Exception_def)
  have 2: "import_pyTMD w = Some e \<and> is_Exception e
      \<longrightarrow> compute_tides_got410 cfg w = Inr None
        \<and> compute_tides_fes2022 cfg w cached = (Inr None, cached)"
    by (simp add: compute_tides_got410_def compute_tides_got410_body_def
        compute_tides_fes2022_def compute_tides_fes2022_body_def except_Exception_def)
  have 3: "import_pyTMD w = None
      \<and> compute_tide_corrections w (replicate (forecast_hours cfg) LONGITUDE)
          (replicate (forecast_hours cfg) LATITUDE)
          (got410_delta_times (forecast_hours cfg) (utcnow w)) = Inl e
      \<and> is_Exception e
      \<longrightarrow> compute_tides_got410 cfg w = Inr None"
    by (simp add: compute_tides_got410_def compute_tides_got410_body_def except_Exception_def
        Let_def)
  have 4: "import_pyTMD w = None \<and> cache_file_exists w \<and> cache_file_load w = Inl e
      \<and> is_Exception e
      \<longrightarrow> compute_tides_fes2022 cfg w None = (Inr None, None)"
    by (simp add: compute_tides_fes2022_def compute_tides_fes2022_body_def load_constants_def
        except_Exception_def)
  have 5: "import_pyTMD w = None \<and> cache_file_exists w \<and> cache_file_load w = Inr c
      \<and> (doc_constituents c = None \<or> doc_latitude c = None \<or> doc_longitude c = None)
      \<longrightarrow> compute_tides_fes2022 cfg w None = (Inr None, Some c)"
    by (auto simp: compute_tides_fes2022_def compute_tides_fes2022_body_def load_constants_def
        subscript_def except_Exception_def split: option.splits)
  have 6: "import_pyTMD w = None \<and> load_constants w cached = (Inr (Some c), cached')
      \<and> (doc_constituents c = None \<or> doc_amplitude c = None \<or> doc_phase c = None)
      \<longrightarrow> compute_tides_fes2022 cfg w cached = (Inr None, cached')"
    by (auto simp: compute_tides_fes2022_def compute_tides_fes2022_body_def fes2022_predict_def
        subscript_def except_Exception_def split: option.splits)
  have 7: "import_pyTMD w = None \<and> load_constants w cached = (Inr (Some c), cached')
      \<and> doc_constituents c = Some names \<and> doc_amplitude c = Some amp \<and> doc_phase c = Some ph
      \<and> hc_single amp ph = Inr hc1
      \<and> predict_drift w (fes2022_t (forecast_hours cfg) (utcnow w))
          (replicate (forecast_hours cfg) hc1) names = Inl e
      \<and> is_Exception e
      \<longrightarrow> compute_tides_fes2022 cfg w cached = (Inr None, cached')"
    by (simp add: compute_tides_fes2022_def compute_tides_fes2022_body_def fes2022_predict_def
        subscript_def except_Exception_def Let_def)
  have 8: "fst (compute_tides_fes2022 cfg w cached) = Inl e \<longrightarrow> \<not> is_Exception e"
    by (auto simp: compute_tides_fes2022_def split: prod.splits dest: except_Exception_no_Exception)
  have 9: "compute_tides_got410 cfg w = Inl e \<longrightarrow> \<not> is_Exception e"
    by (auto simp: compute_tides_got410_def dest: except_Exception_no_Exception)
  have 10: "fst (compute_tides cfg w cached) = Inl e \<longrightarrow> \<not> is_Exception e"
    using 8 9 by (simp add: compute_tides_def)
  show ?thesis by (intro conjI 1 2 3 4 5 6 7 8 9 10)
qed

theorem exceptions_become_None_witness:
  "\<not> cache_file_exists no_file_world \<and> import_raises_Exception no_file_world
   \<and> fes2022_calls (app_config (Some ''FES2022'')) [no_file_world, no_file_world] None
        = [Inr None, Inr None]
   \<and> import_pyTMD no_library_world = Some ImportError \<and> is_Exception ImportError
   \<and> compute_tides_got410 (app_config None) no_library_world = Inr None
   \<and> compute_tides_fes2022 (app_config (Some ''FES2022'')) no_library_world None
        = (Inr None, None)
   \<and> compute_tide_corrections no_model_files_world
        (replicate (forecast_hours (app_config None)) LONGITUDE)
        (replicate (forecast_hours (app_config None)) LATITUDE)
        (got410_delta_times (forecast_hours (app_config None)) (utcnow no_model_files_world))
        = Inl OSError
   \<and> compute_tides_got410 (app_config None) no_model_files_world = Inr None
   \<and> cache_file_load corrupt_file_world = Inl JSONDecodeError
   \<and> compute_tides_fes2022 (app_config (Some ''FES2022'')) corrupt_file_world None
        = (Inr None, None)
   \<and> cache_file_load (sample_world no_latitude_doc) = Inr no_latitude_doc
   \<and> compute_tides_fes2022 (app_config (Some ''FES2022'')) (sample_world no_latitude_doc) None
        = (Inr None, Some no_latitude_doc)
   \<and> load_constants (sample_world no_amplitude_doc) None
        = (Inr (Some no_amplitude_doc), Some no_amplitude_doc)
   \<and> compute_tides_fes2022 (app_config (Some ''FES2022'')) (sample_world no_amplitude_doc) None
        = (Inr None, Some no_amplitude_doc)
   \<and> load_constants failing_drift_world None = (Inr (Some sample_doc), Some sample_doc)
   \<and> compute_tides_fes2022 (app_config (Some ''FES2022'')) failing_drift_world None
        = (Inr None, Some sample_doc)"
proof -
  let ?fes = "app_config (Some ''FES2022'')"
  let ?got = "app_config None"
  have nf: "\<not> cache_file_exists no_file_world" "import_raises_Exception no_file_world"
    by (simp_all add: no_file_world_def sample_world_def import_raises_Exception_def)
  then have "\<forall>w \<in> set [no_file_world, no_file_world].
      \<not> cache_file_exists w \<and> import_raises_Exception w" by simp
  then have 1: "fes2022_calls ?fes [no_file_world, no_file_world] None = [Inr None, Inr None]"
    using exceptions_become_None[where ws="[no_file_world, no_file_world]" and cfg="?fes", THEN conjunct1] by simp
  have nl: "import_pyTMD no_library_world = Some ImportError" "is_Exception ImportError"
    by (simp_all add: no_library_world_def sample_world_def)
  have 2: "compute_tides_got410 ?got no_library_world = Inr None"
    using exceptions_become_None[where w=no_library_world and cfg="?got" and e=ImportError, THEN conjunct2, THEN conjunct1] nl by simp
  have 3: "compute_tides_fes2022 ?fes no_library_world None = (Inr None, None)"
    using exceptions_become_None[where w=no_library_world and cfg="?fes" and e=ImportError and cached=None, THEN conjunct2, THEN conjunct1] nl
    by simp
  have nm: "import_pyTMD no_model_files_world = None"
    "compute_tide_corrections no_model_files_world
        (replicate (forecast_hours ?got) LONGITUDE) (replicate (forecast_hours ?got) LATITUDE)
        (got410_delta_times (forecast_hours ?got) (utcnow no_model_files_world)) = Inl OSError"
    "is_Exception OSError"
    by (simp_all add: no_model_files_world_def sample_world_def)
  have 4: "compute_tides_got410 ?got no_model_files_world = Inr None"
    using exceptions_become_None[where w=no_model_files_world and cfg="?got" and e=OSError, THEN conjunct2, THEN conjunct2, THEN conjunct1] nm by simp
  have cf: "import_pyTMD corrupt_file_world = None" "cache_file_exists corrupt_file_world"
    "cache_file_load corrupt_file_world = Inl JSONDecodeError" "is_Exception JSONDecodeError"
    by (simp_all add: corrupt_file_world_def sample_world_def)
  have 5: "compute_tides_fes2022 ?fes corrupt_file_world None = (Inr None, None)"
    using exceptions_become_None[where w=corrupt_file_world and cfg="?fes" and e=JSONDecodeError, THEN conjunct2, THEN conjunct2, THEN conjunct2, THEN conjunct1] cf by simp
  have la: "import_pyTMD (sample_world no_latitude_doc) = None"
    "cache_file_exists (sample_world no_latitude_doc)"
    "cache_file_load (sample_world no_latitude_doc) = Inr no_latitude_doc"
    "doc_latitude no_latitude_doc = None"
    by (simp_all add: sample_world_def no_latitude_doc_def)
  have 6: "compute_tides_fes2022 ?fes (sample_world no_latitude_doc) None
        = (Inr None, Some no_latitude_doc)"
    using exceptions_become_None[where w="sample_world no_latitude_doc" and cfg="?fes" and c=no_latitude_doc, THEN conjunct2, THEN conjunct2, THEN conjunct2, THEN conjunct2, THEN conjunct1] la
    by simp
  have am: "import_pyTMD (sample_world no_amplitude_doc) = None"
    "load_constants (sample_world no_amplitude_doc) None
        = (Inr (Some no_amplitude_doc), Some no_amplitude_doc)"
    "doc_amplitude no_amplitude_doc = None"
    by (simp_all add: sample_world_def no_amplitude_doc_def sample_doc_def load_constants_def
        subscript_def)
  have 7: "compute_tides_fes2022 ?fes (sample_world no_amplitude_doc) None
        = (Inr None, Some no_amplitude_doc)"
    using exceptions_become_None[where w="sample_world no_amplitude_doc" and cfg="?fes" and c=no_amplitude_doc
        and cached=None and cached'="Some no_amplitude_doc", THEN conjunct2, THEN conjunct2, THEN conjunct2, THEN conjunct2, THEN conjunct2, THEN conjunct1] am
    by simp
  have fd: "import_pyTMD failing_drift_world = None"
    "load_constants failing_drift_world None = (Inr (Some sample_doc), Some sample_doc)"
    "doc_constituents sample_doc = Some [''m2'']" "doc_amplitude sample_doc = Some [3 / 10]"
    "doc_phase sample_doc = Some [0]"
    "predict_drift failing_drift_world
       (fes2022_t (forecast_hours ?fes) (utcnow failing_drift_world))
       (replicate (forecast_hours ?fes) [3 / 10]) [''m2''] = Inl LibraryError"
    "is_Exception LibraryError"
    by (simp_all add: failing_drift_world_def sample_world_def sample_doc_def load_constants_def
        subscript_def)
  have 8: "compute_tides_fes2022 ?fes failing_drift_world None = (Inr None, Some sample_doc)"
    using exceptions_become_None[where w=failing_drift_world and cfg="?fes" and c=sample_doc
        and cached=None and cached'="Some sample_doc" and names="[''m2'']" and amp="[3 / 10]"
        and ph="[0]" and ?hc1.0="[3 / 10]" and e=LibraryError, THEN conjunct2, THEN conjunct2, THEN conjunct2, THEN conjunct2, THEN conjunct2, THEN conjunct2, THEN conjunct1] fd hc_single_sample
    by simp
  show ?thesis
    by (intro conjI nf 1 nl 2 3 nm(2) 4 cf(3) 5 la(3) 6 am(2) 7 fd(2) 8)
qed

subsection \<open>Model selection\<close>

text \<open>
  Claim C9: the dispatcher runs the FES2022 path when the configured model name is the
  string \<open>FES2022\<close>, and the GOT4.10 path for every other name; the name is the value
  of the environment variable \<^verbatim>\<open>TIDE_MODEL\<close>, or \<open>GOT4.10\<close> when it is not set. So every
  name is served by one of the two paths, and no name is an error.
\<close>

theorem dispatcher_selects_by_name:
  "(tide_model_name cfg = ''FES2022'' \<longrightarrow>
      compute_tides cfg w cached = compute_tides_fes2022 cfg w cached)
   \<and> (tide_model_name cfg \<noteq> ''FES2022'' \<longrightarrow>
      compute_tides cfg w cached = (compute_tides_got410 cfg w, cached))
   \<and> tide_model_name (app_config (Some name)) = name
   \<and> tide_model_name (app_config None) = ''GOT4.10''"
  by (simp add: compute_tides_def app_config_def TIDE_MODEL_NAME_def)

theorem dispatcher_selects_by_name_witness:
  "tide_model_name (app_config (Some ''FES2022'')) = ''FES2022''
   \<and> compute_tides (app_config (Some ''FES2022'')) (sample_world sample_doc) None
        = compute_tides_fes2022 (app_config (Some ''FES2022'')) (sample_world sample_doc) None
   \<and> tide_model_name (app_config (Some ''FES2014'')) \<noteq> ''FES2022''
   \<and> compute_tides (app_config (Some ''FES2014'')) (sample_world sample_doc) None
        = (compute_tides_got410 (app_config (Some ''FES2014'')) (sample_world sample_doc), None)
   \<and> tide_model_name (app_config None) \<noteq> ''FES2022''
   \<and> compute_tides (app_config None) (sample_world sample_doc) None
        = (compute_tides_got410 (app_config None) (sample_world sample_doc), None)"
proof -
  have a: "tide_model_name (app_config (Some ''FES2022'')) = ''FES2022''"
    and b: "tide_model_name (app_config (Some ''FES2014'')) \<noteq> ''FES2022''"
    and c: "tide_model_name (app_config None) \<noteq> ''FES2022''"
    by (simp_all add: app_config_def TIDE_MODEL_NAME_def)
  show ?thesis
    using a b c
      dispatcher_selects_by_name[of "app_config (Some ''FES2022'')" "sample_world sample_doc" None]
      dispatcher_selects_by_name[of "app_config (Some ''FES2014'')" "sample_world sample_doc" None]
      dispatcher_selects_by_name[of "app_config None" "sample_world sample_doc" None]
    by blast
qed

subsection \<open>Length validation of a loaded record\<close>

lemma hc_single_mismatched: "hc_single [3 / 10] [0, 0] = Inr [3 / 10, 3 / 10]"
  by (simp add: hc_single_def np_multiply_def deg2rad_def)

text \<open>
  Claim C7, as stated: the FES2022 path checks that the amplitude and phase arrays of a
  loaded record have equal length and returns \<open>None\<close> for every record that fails the
  check. It fails for a record with one amplitude and two phases: there is no check,
  numpy broadcasts the single amplitude, and the path returns a series computed from the
  mismatched arrays (with the stand-in synthesizer, 168 entries of 105).
\<close>

theorem mismatched_record_is_used:
  "doc_amplitude mismatched_doc = Some [3 / 10] \<and> doc_phase mismatched_doc = Some [0, 0]
   \<and> compute_tides_fes2022 (app_config (Some ''FES2022'')) (sample_world mismatched_doc) None
       = (Inr (Some (replicate 168 105)), Some mismatched_doc)"
proof -
  have t: "tide_cm 45 (3 / 5) = 105"
    by (rule tide_cm_3_5)
  show ?thesis
  by (simp add: compute_tides_fes2022_def compute_tides_fes2022_body_def load_constants_def
      fes2022_predict_def subscript_def except_Exception_def Let_def mismatched_doc_def
      sample_world_def sample_drift_def app_config_def FORECAST_HOURS_def
      TIDE_DATUM_OFFSET_CM_def to_tide_cm_def t fes2022_t_def comp_def
      hc_single_mismatched list_ex_iff)
qed

lemma hc_single_ValueError:
  "length amp \<noteq> length ph \<Longrightarrow> length amp \<noteq> 1 \<Longrightarrow> length ph \<noteq> 1 \<Longrightarrow> hc_single amp ph = Inl ValueError"
  by (simp add: hc_single_def np_multiply_def)

lemma hc_single_broadcast:
  "length ph \<noteq> 1 \<Longrightarrow> hc_single [a] ph = Inr (map (\<lambda>p. of_real a * exp (\<i> * of_real (deg2rad p))) ph)"
  by (simp add: hc_single_def np_multiply_def comp_def)

lemma hc_single_equal:
  "length amp = length ph \<Longrightarrow>
   hc_single amp ph = Inr (map2 (\<lambda>a p. of_real a * exp (\<i> * of_real (deg2rad p))) amp ph)"
  by (simp add: hc_single_def np_multiply_def zip_map2 comp_def case_prod_beta)

text \<open>
  Claim C7, amended: the FES2022 path does not compare the lengths itself. For a loaded
  record whose amplitude and phase arrays differ in length, the element-wise product
  raises when neither array has length one, and the path then returns \<open>None\<close>; when one
  of the arrays has length one it is broadcast against the other, and the path goes on
  to the synthesizer with the product.
\<close>

theorem mismatched_record_raises_unless_broadcast:
  assumes "import_pyTMD w = None"
    and "load_constants w cached = (Inr (Some c), cached')"
    and "doc_amplitude c = Some amp" and "doc_phase c = Some ph"
    and "length amp \<noteq> length ph"
  shows "(length amp \<noteq> 1 \<and> length ph \<noteq> 1 \<longrightarrow>
            compute_tides_fes2022 cfg w cached = (Inr None, cached'))
     \<and> (length amp = 1 \<longrightarrow>
            hc_single amp ph = Inr (map (\<lambda>p. of_real (hd amp) * exp (\<i> * of_real (deg2rad p))) ph))
     \<and> (length ph = 1 \<longrightarrow>
            hc_single amp ph = Inr (map (\<lambda>a. of_real a * exp (\<i> * of_real (deg2rad (hd ph)))) amp))"
proof -
  have a: "compute_tides_fes2022 cfg w cached = (Inr None, cached')"
    if "length amp \<noteq> 1" "length ph \<noteq> 1"
  proof -
    have "hc_single amp ph = Inl ValueError" using assms(5) that by (rule hc_single_ValueError)
    then have "fes2022_predict cfg w c = Inl ValueError \<or> fes2022_predict cfg w c = Inl KeyError"
      using assms(3,4) by (simp add: fes2022_predict_def subscript_def Let_def split: option.splits)
    then show ?thesis using assms(1,2)
      by (auto simp: compute_tides_fes2022_def compute_tides_fes2022_body_def except_Exception_def)
  qed
  have b: "hc_single amp ph = Inr (map (\<lambda>p. of_real (hd amp) * exp (\<i> * of_real (deg2rad p))) ph)"
    if "length amp = 1"
    using that assms(5) by (simp add: hc_single_def np_multiply_def comp_def)
  have c: "hc_single amp ph = Inr (map (\<lambda>a. of_real a * exp (\<i> * of_real (deg2rad (hd ph)))) amp)"
    if "length ph = 1"
    using that assms(5) by (cases ph) (auto simp add: hc_single_def np_multiply_def comp_def)
  show ?thesis using a b c by blast
qed

theorem mismatched_record_raises_unless_broadcast_witness:
  "import_pyTMD (sample_world unbroadcastable_doc) = None
   \<and> load_constants (sample_world unbroadcastable_doc) None
        = (Inr (Some unbroadcastable_doc), Some unbroadcastable_doc)
   \<and> doc_amplitude unbroadcastable_doc = Some [3 / 10, 1 / 10, 1 / 5]
   \<and> doc_phase unbroadcastable_doc = Some [0, 0]
   \<and> length [3 / 10, 1 / 10, 1 / 5 :: real] \<noteq> length [0, 0 :: real]
   \<and> length [3 / 10, 1 / 10, 1 / 5 :: real] \<noteq> 1 \<and> length [0, 0 :: real] \<noteq> 1
   \<and> compute_tides_fes2022 (app_config (Some ''FES2022'')) (sample_world unbroadcastable_doc) None
        = (Inr None, Some unbroadcastable_doc)"
proof -
  have i: "import_pyTMD (sample_world unbroadcastable_doc) = None" by (simp add: sample_world_def)
  have l: "load_constants (sample_world unbroadcastable_doc) None
        = (Inr (Some unbroadcastable_doc), Some unbroadcastable_doc)"
    by (simp add: load_constants_def sample_world_def unbroadcastable_doc_def subscript_def)
  have a: "doc_amplitude unbroadcastable_doc = Some [3 / 10, 1 / 10, 1 / 5]"
    and p: "doc_phase unbroadcastable_doc = Some [0, 0]"
    by (simp_all add: unbroadcastable_doc_def)
  have n: "length [3 / 10, 1 / 10, 1 / 5 :: real] \<noteq> length [0, 0 :: real]" by simp
  show ?thesis
    using mismatched_record_raises_unless_broadcast[OF i l a p n, of "app_config (Some ''FES2022'')"] i l a p by simp
qed

subsection \<open>The extraction loop\<close>

lemma extend_Nil: "extend w [] r = r"
  by (simp add: extend_def)

lemma extend_Cons:
  "extend w (c # cs) r =
   extend w cs (r\<lparr>constituents := constituents r @ [c],
                   amplitude := amplitude r @ [extracted_amplitude w c],
                   phase := phase r @ [extracted_phase w c]\<rparr>)"
  by (simp add: extend_def)

lemma extract_loop_Inr:
  "extract_loop w cs r = Inr r' \<Longrightarrow> r' = extend w (filter (kept w) cs) r"
proof (induction cs arbitrary: r)
  case Nil
  then show ?case by (simp add: extend_Nil)
next
  case (Cons c cs)
  show ?case
  proof (cases "model_file_exists w c")
    case False
    then show ?thesis using Cons by (simp add: kept_def)
  next
    case True
    show ?thesis
    proof (cases "FES_extract_constants w c")
      case (Inl e)
      then show ?thesis using Cons True by (simp add: kept_def split: if_splits)
    next
      case (Inr v)
      obtain amp ph where v: "v = (amp, ph)" by (cases v)
      have k: "kept w c" using True Inr by (simp add: kept_def)
      have "extract_loop w cs (r\<lparr>constituents := constituents r @ [c],
                   amplitude := amplitude r @ [extracted_amplitude w c],
                   phase := phase r @ [extracted_phase w c]\<rparr>) = Inr r'"
        using Cons.prems True Inr v
        by (simp add: Let_def extracted_amplitude_def extracted_phase_def)
      from Cons.IH[OF this] show ?thesis using k by (simp add: extend_Cons)
    qed
  qed
qed

lemma extract_loop_total:
  assumes "\<forall>c e. FES_extract_constants w c = Inl e \<longrightarrow> is_Exception e"
  shows "\<exists>r'. extract_loop w cs r = Inr r'"
proof (induction cs arbitrary: r)
  case Nil
  then show ?case by simp
next
  case (Cons c cs)
  show ?case
  proof (cases "FES_extract_constants w c")
    case (Inl e)
    then have "is_Exception e" using assms by blast
    then show ?thesis using Inl Cons by simp
  next
    case (Inr v)
    then show ?thesis using Cons by (cases v) (simp add: Let_def)
  qed
qed

lemma distinct_CONSTITUENTS: "distinct CONSTITUENTS"
  by (simp add: CONSTITUENTS_def)

lemma length_CONSTITUENTS: "length CONSTITUENTS = 34"
  by (simp add: CONSTITUENTS_def)

lemma masked_loop:
  "extract_loop masked_world CONSTITUENTS initial_results
   = Inr (extend masked_world CONSTITUENTS initial_results)"
proof -
  have "\<forall>c e. FES_extract_constants masked_world c = Inl e \<longrightarrow> is_Exception e"
    by (simp add: masked_world_def)
  then obtain r' where r: "extract_loop masked_world CONSTITUENTS initial_results = Inr r'"
    using extract_loop_total by blast
  have "filter (kept masked_world) CONSTITUENTS = CONSTITUENTS"
    by (simp add: kept_def masked_world_def)
  then show ?thesis using extract_loop_Inr[OF r] r by simp
qed

lemma extend_fields:
  "constituents (extend w cs r) = constituents r @ cs"
  "amplitude (extend w cs r) = amplitude r @ map (extracted_amplitude w) cs"
  "phase (extend w cs r) = phase r @ map (extracted_phase w) cs"
  "latitude (extend w cs r) = latitude r"
  "longitude (extend w cs r) = longitude r"
  by (simp_all add: extend_def)

lemma initial_fields:
  "constituents initial_results = []" "amplitude initial_results = []"
  "phase initial_results = []" "latitude initial_results = LATITUDE"
  "longitude initial_results = LONGITUDE"
  by (simp_all add: initial_results_def)

text \<open>
  Claim C5, as stated: a constituent whose model file is absent or whose interpolation
  result is masked is left out of the record, which is then strictly shorter than the
  catalog. It fails for a masked result: lines 72 and 73 replace a masked amplitude or
  phase by \<open>0.0\<close> and the constituent is stored. With every model file present and
  \<open>m2\<close> masked, the record names all 34 constituents.
\<close>

theorem masked_constituent_is_stored:
  "model_file_exists masked_world ''m2''
   \<and> FES_extract_constants masked_world ''m2'' = Inr (None, None)
   \<and> extract_loop masked_world CONSTITUENTS initial_results
       = Inr (extend masked_world CONSTITUENTS initial_results)
   \<and> constituents (extend masked_world CONSTITUENTS initial_results) = CONSTITUENTS
   \<and> ''m2'' \<in> set CONSTITUENTS
   \<and> \<not> length (constituents (extend masked_world CONSTITUENTS initial_results))
        < length CONSTITUENTS"
  using masked_loop
  by (simp add: extend_fields initial_fields) (simp add: masked_world_def CONSTITUENTS_def)

lemma filter_shorter: "length (filter P xs) < length xs \<longleftrightarrow> (\<exists>x \<in> set xs. \<not> P x)"
  by (induction xs) (auto simp: less_Suc_eq_le)

text \<open>
  Claim C5, amended: when the library raises nothing but instances of \<open>Exception\<close>, the
  loop completes, and the record names exactly the catalog's constituents whose model
  file exists and whose library call returned, in catalog order. So a constituent whose
  model file is absent, or whose library call raises, is left out, and the record is
  strictly shorter than the catalog exactly when there is such a constituent. A
  constituent whose interpolated amplitude is masked is stored, with amplitude 0. If
  the library imports and saving does not fail, the whole extraction returns that
  record.
\<close>

theorem extraction_skips_missing_and_failed:
  assumes "raises_only_Exceptions w"
  shows "\<exists>r. extract_loop w CONSTITUENTS initial_results = Inr r
     \<and> constituents r = filter (kept w) CONSTITUENTS
     \<and> (length (constituents r) < length CONSTITUENTS \<longleftrightarrow> (\<exists>c \<in> set CONSTITUENTS. \<not> kept w c))
     \<and> (\<forall>c \<in> set CONSTITUENTS.
           \<not> model_file_exists w c \<or> (\<exists>e. FES_extract_constants w c = Inl e)
           \<longrightarrow> c \<notin> set (constituents r))
     \<and> (\<forall>c \<in> set CONSTITUENTS.
           model_file_exists w c \<and> (\<exists>ph. FES_extract_constants w c = Inr (None, ph))
           \<longrightarrow> c \<in> set (constituents r) \<and> extracted_amplitude w c = 0)
     \<and> (import_pyTMD_io_FES w = None \<longrightarrow>
           fst (extract_constants w no_write_faults base d) = Inr r)"
proof -
  obtain r where r: "extract_loop w CONSTITUENTS initial_results = Inr r"
    using extract_loop_total assms unfolding raises_only_Exceptions_def by blast
  have c: "constituents r = filter (kept w) CONSTITUENTS"
    using extract_loop_Inr[OF r] by (simp add: extend_fields initial_fields)
  have 1: "length (constituents r) < length CONSTITUENTS \<longleftrightarrow> (\<exists>c \<in> set CONSTITUENTS. \<not> kept w c)"
    unfolding c by (rule filter_shorter)
  have 2: "\<forall>c \<in> set CONSTITUENTS.
           \<not> model_file_exists w c \<or> (\<exists>e. FES_extract_constants w c = Inl e)
           \<longrightarrow> c \<notin> set (constituents r)"
    unfolding c by (auto simp: kept_def)
  have 3: "\<forall>c \<in> set CONSTITUENTS.
           model_file_exists w c \<and> (\<exists>ph. FES_extract_constants w c = Inr (None, ph))
           \<longrightarrow> c \<in> set (constituents r) \<and> extracted_amplitude w c = 0"
    unfolding c by (auto simp: kept_def extracted_amplitude_def unmask_def)
  have 4: "import_pyTMD_io_FES w = None \<longrightarrow>
           fst (extract_constants w no_write_faults base d) = Inr r"
    using r by (simp add: extract_constants_def save_results_def no_write_faults_def)
  show ?thesis
    by (rule exI[of _ r]) (intro conjI r c 1 2 3 4)
qed

lemma partial_kept:
  "filter (kept partial_world) CONSTITUENTS
   = [''2n2'', ''eps2'', ''j1'', ''k1'', ''k2'', ''l2'', ''lambda2'', ''m3'', ''m4'',
      ''m6'', ''m8'', ''mf'', ''mks2'', ''mm'', ''mn4'', ''ms4'', ''msf'', ''msqm'', ''mtm'',
      ''mu2'', ''n2'', ''n4'', ''nu2'', ''o1'', ''p1'', ''q1'', ''r2'', ''s1'', ''s4'',
      ''sa'', ''ssa'', ''t2'']"
  by (simp add: kept_def partial_world_def CONSTITUENTS_def)

theorem extraction_skips_missing_and_failed_witness:
  "raises_only_Exceptions partial_world
   \<and> \<not> model_file_exists partial_world ''m2''
   \<and> FES_extract_constants partial_world ''s2'' = Inl LibraryError
   \<and> (\<exists>r. extract_loop partial_world CONSTITUENTS initial_results = Inr r
          \<and> length (constituents r) = 32 \<and> length CONSTITUENTS = 34
          \<and> ''m2'' \<notin> set (constituents r) \<and> ''s2'' \<notin> set (constituents r)
          \<and> ''k1'' \<in> set (constituents r))"
proof -
  have h: "raises_only_Exceptions partial_world"
    by (simp add: raises_only_Exceptions_def partial_world_def)
  have a: "\<not> model_file_exists partial_world ''m2''"
    and b: "FES_extract_constants partial_world ''s2'' = Inl LibraryError"
    by (simp_all add: partial_world_def)
  obtain r where r: "extract_loop partial_world CONSTITUENTS initial_results = Inr r"
    and c: "constituents r = filter (kept partial_world) CONSTITUENTS"
    using extraction_skips_missing_and_failed[OF h] by blast
  have "length (constituents r) = 32" "''m2'' \<notin> set (constituents r)"
    "''s2'' \<notin> set (constituents r)" "''k1'' \<in> set (constituents r)"
    unfolding c partial_kept by simp_all
  then show ?thesis using h a b r length_CONSTITUENTS by blast
qed

text \<open>
  Claim C6: in every record that the extraction loop produces, whichever constituents
  were skipped, the three lists have the same length, the amplitude and the phase at an
  index are the ones extracted for the constituent named at that index, and no
  constituent is named twice. The record that a completed extraction has saved is that
  record.
\<close>

theorem record_lists_correspond:
  assumes "extract_loop w CONSTITUENTS initial_results = Inr r"
  shows "length (amplitude r) = length (constituents r)
     \<and> length (phase r) = length (constituents r)
     \<and> (\<forall>i < length (constituents r).
           amplitude r ! i = extracted_amplitude w (constituents r ! i)
         \<and> phase r ! i = extracted_phase w (constituents r ! i)
         \<and> constituents r ! i \<in> set CONSTITUENTS)
     \<and> distinct (constituents r)
     \<and> (\<forall>r' trace. extract_constants w f base d = (Inr r', trace) \<longrightarrow> r' = r)"
proof -
  let ?ks = "filter (kept w) CONSTITUENTS"
  have e: "r = extend w ?ks initial_results" using extract_loop_Inr[OF assms] .
  have c: "constituents r = ?ks" and a: "amplitude r = map (extracted_amplitude w) ?ks"
    and p: "phase r = map (extracted_phase w) ?ks"
    unfolding e by (simp_all add: extend_fields initial_fields)
  have m: "\<forall>i < length ?ks. ?ks ! i \<in> set CONSTITUENTS"
    using nth_mem[of _ ?ks] by auto
  have d: "distinct (constituents r)" unfolding c using distinct_CONSTITUENTS by simp
  have x: "\<forall>r' trace. extract_constants w f base d = (Inr r', trace) \<longrightarrow> r' = r"
    using assms
    by (auto simp: extract_constants_def split: option.splits sum.splits prod.splits)
  show ?thesis using m d x unfolding c a p by simp
qed

theorem record_lists_correspond_witness:
  "extract_loop masked_world CONSTITUENTS initial_results
     = Inr (extend masked_world CONSTITUENTS initial_results)
   \<and> length (amplitude (extend masked_world CONSTITUENTS initial_results)) = 34
   \<and> length (phase (extend masked_world CONSTITUENTS initial_results)) = 34
   \<and> length (constituents (extend masked_world CONSTITUENTS initial_results)) = 34
   \<and> distinct (constituents (extend masked_world CONSTITUENTS initial_results))"
  using record_lists_correspond[OF masked_loop] masked_loop length_CONSTITUENTS
  by (simp add: extend_fields initial_fields)

subsection \<open>Saving the constants record\<close>

lemma written_prefixes_0: "written_prefixes path text 0 d = [d(path \<mapsto> [])]"
  by (simp add: written_prefixes_def)

text \<open>
  Claim C8, as stated: regenerating the constants record replaces it atomically, the file
  never holds a partial update, and a regeneration that fails mid-write leaves the
  previous record intact. It fails when the device is full: \<^verbatim>\<open>open(CACHE_FILE, 'w')\<close>
  has already truncated the file, the write raises, and the file is left empty, holding
  neither the old record nor the new one.
\<close>

theorem failed_regeneration_loses_old_record:
  "old_record_disk ''/srv'' (FES2022_CACHE_FILE ''/srv'') = Some ''old record''
   \<and> save_results disk_full (FES2022_CACHE_FILE ''/srv'') ''new record'' (old_record_disk ''/srv'')
       = (Inl OSError,
          [old_record_disk ''/srv'',
           (old_record_disk ''/srv'')(FES2022_CACHE_FILE ''/srv'' \<mapsto> [])])
   \<and> last (snd (save_results disk_full (FES2022_CACHE_FILE ''/srv'') ''new record''
                  (old_record_disk ''/srv''))) (FES2022_CACHE_FILE ''/srv'') = Some []
   \<and> [] \<noteq> ''old record'' \<and> [] \<noteq> ''new record''"
  by (simp add: save_results_def disk_full_def written_prefixes_0 old_record_disk_def)

lemma written_prefixes_set:
  "s \<in> set (written_prefixes path text k d) \<longleftrightarrow> (\<exists>j \<le> k. s = d(path \<mapsto> take j text))"
proof -
  have "set (written_prefixes path text k d) = (\<lambda>j. d(path \<mapsto> take j text)) ` {j. j \<le> k}"
    unfolding written_prefixes_def set_map set_upt by (rule arg_cong[where f="image _"]) auto
  then show ?thesis by auto
qed

lemma written_prefixes_state:
  assumes "s \<in> set (written_prefixes path text k d)" and "k \<le> length text"
  shows "(\<forall>q. q \<noteq> path \<longrightarrow> s q = d q) \<and> (\<exists>j \<le> length text. s path = Some (take j text))"
proof -
  obtain j where j: "j \<le> k" "s = d(path \<mapsto> take j text)"
    using assms(1) unfolding written_prefixes_set by blast
  then have "j \<le> length text" using assms(2) by simp
  then show ?thesis using j(2) by auto
qed

lemma written_prefixes_last:
  "last (written_prefixes path text k d) = d(path \<mapsto> take k text)"
  by (simp add: written_prefixes_def last_map)

lemma written_prefixes_ne: "written_prefixes path text k d \<noteq> []"
  by (simp add: written_prefixes_def)

lemma written_prefixes_first: "d(path \<mapsto> []) \<in> set (written_prefixes path text k d)"
  unfolding written_prefixes_set by (rule exI[of _ 0]) simp

text \<open>
  Claim C8, amended: regenerating the constants record rewrites the file in place. Only
  that file changes. A regeneration that completes leaves exactly the whole new document
  in it. The replacement is not atomic: once the file has been opened it is empty, and
  while the document is written, and after a failure mid-write, it holds a prefix of the
  new document; the previous record survives only a failure that comes before the file
  is opened (creating the directory, or opening the file).
\<close>

theorem regeneration_rewrites_in_place:
  assumes "save_results f path text d = (r, trace)"
  shows "(\<forall>s \<in> set trace. (\<forall>q. q \<noteq> path \<longrightarrow> s q = d q)
             \<and> (s path = d path \<or> (\<exists>j \<le> length text. s path = Some (take j text))))
     \<and> (r = Inr () \<longleftrightarrow> mkdir_fault f = None \<and> open_fault f = None \<and> dump_fault f = None)
     \<and> (r = Inr () \<longrightarrow> last trace = d(path \<mapsto> text))
     \<and> (mkdir_fault f \<noteq> None \<or> open_fault f \<noteq> None \<longrightarrow> trace = [d])
     \<and> (mkdir_fault f = None \<and> open_fault f = None \<longrightarrow> d(path \<mapsto> []) \<in> set trace)
     \<and> (\<forall>k e. mkdir_fault f = None \<and> open_fault f = None \<and> dump_fault f = Some (k, e) \<longrightarrow>
           r = Inl e \<and> last trace = d(path \<mapsto> take (min k (length text)) text))"
proof -
  have 1: "\<forall>s \<in> set trace. (\<forall>q. q \<noteq> path \<longrightarrow> s q = d q)
             \<and> (s path = d path \<or> (\<exists>j \<le> length text. s path = Some (take j text)))"
  proof
    fix s assume s: "s \<in> set trace"
    have "s = d \<or> (\<exists>k \<le> length text. s \<in> set (written_prefixes path text k d))"
      using assms s
      by (auto simp: save_results_def split: option.splits prod.splits
          intro: exI[of _ "length text"] exI[of _ "min _ (length text)"])
    then show "(\<forall>q. q \<noteq> path \<longrightarrow> s q = d q)
             \<and> (s path = d path \<or> (\<exists>j \<le> length text. s path = Some (take j text)))"
      using written_prefixes_state by blast
  qed
  have 2: "r = Inr () \<longleftrightarrow> mkdir_fault f = None \<and> open_fault f = None \<and> dump_fault f = None"
    using assms by (auto simp: save_results_def split: option.splits prod.splits)
  have 3: "r = Inr () \<longrightarrow> last trace = d(path \<mapsto> text)"
    using assms
    by (auto simp: save_results_def written_prefixes_last written_prefixes_ne
        split: option.splits prod.splits)
  have 4: "mkdir_fault f \<noteq> None \<or> open_fault f \<noteq> None \<longrightarrow> trace = [d]"
    using assms by (auto simp: save_results_def split: option.splits prod.splits)
  have 5: "mkdir_fault f = None \<and> open_fault f = None \<longrightarrow> d(path \<mapsto> []) \<in> set trace"
    using assms
    by (auto simp: save_results_def written_prefixes_first split: option.splits prod.splits)
  have 6: "\<forall>k e. mkdir_fault f = None \<and> open_fault f = None \<and> dump_fault f = Some (k, e) \<longrightarrow>
           r = Inl e \<and> last trace = d(path \<mapsto> take (min k (length text)) text)"
    using assms
    by (auto simp: save_results_def written_prefixes_last written_prefixes_ne
        split: option.splits prod.splits)
  show ?thesis by (intro conjI 1 2 3 4 5 6)
qed

theorem regeneration_rewrites_in_place_witness:
  "save_results no_write_faults (FES2022_CACHE_FILE ''/srv'') ''new'' (old_record_disk ''/srv'')
     = (Inr (),
        [old_record_disk ''/srv'',
         (old_record_disk ''/srv'')(FES2022_CACHE_FILE ''/srv'' \<mapsto> []),
         (old_record_disk ''/srv'')(FES2022_CACHE_FILE ''/srv'' \<mapsto> ''n''),
         (old_record_disk ''/srv'')(FES2022_CACHE_FILE ''/srv'' \<mapsto> ''ne''),
         (old_record_disk ''/srv'')(FES2022_CACHE_FILE ''/srv'' \<mapsto> ''new'')])
   \<and> last [old_record_disk ''/srv'',
         (old_record_disk ''/srv'')(FES2022_CACHE_FILE ''/srv'' \<mapsto> []),
         (old_record_disk ''/srv'')(FES2022_CACHE_FILE ''/srv'' \<mapsto> ''n''),
         (old_record_disk ''/srv'')(FES2022_CACHE_FILE ''/srv'' \<mapsto> ''ne''),
         (old_record_disk ''/srv'')(FES2022_CACHE_FILE ''/srv'' \<mapsto> ''new'')]
       = (old_record_disk ''/srv'')(FES2022_CACHE_FILE ''/srv'' \<mapsto> ''new'')
   \<and> mkdir_fault no_write_faults = None \<and> open_fault no_write_faults = None
   \<and> dump_fault no_write_faults = None"
proof -
  have h: "save_results no_write_faults (FES2022_CACHE_FILE ''/srv'') ''new'' (old_record_disk ''/srv'')
     = (Inr (),
        [old_record_disk ''/srv'',
         (old_record_disk ''/srv'')(FES2022_CACHE_FILE ''/srv'' \<mapsto> []),
         (old_record_disk ''/srv'')(FES2022_CACHE_FILE ''/srv'' \<mapsto> ''n''),
         (old_record_disk ''/srv'')(FES2022_CACHE_FILE ''/srv'' \<mapsto> ''ne''),
         (old_record_disk ''/srv'')(FES2022_CACHE_FILE ''/srv'' \<mapsto> ''new'')])"
    by (simp add: save_results_def no_write_faults_def written_prefixes_def upt_rec)
  show ?thesis using regeneration_rewrites_in_place[OF h] h by (simp add: no_write_faults_def)
qed

subsection \<open>Saving the response cache\<close>

lemma tmp_not_target: "mkstemp (CACHE_DIR base) ''.tmp'' rnd \<noteq> CACHE_FILE base"
  by (simp add: mkstemp_def CACHE_DIR_def CACHE_FILE_def path_join_def)

lemma written_prefixes_other:
  "s \<in> set (written_prefixes path text k d) \<Longrightarrow> q \<noteq> path \<Longrightarrow> s q = d q"
  unfolding written_prefixes_set by auto

text \<open>
  Claim C10: a save of the response cache writes the document to a temporary file in the
  directory of the cache file and then renames it over the cache file. At every moment
  the cache file holds either what it held before the save or the whole new document,
  and no file but these two changes. A save without a failure ends with the new document
  in the cache file and no temporary file. A save in which any step fails leaves the
  cache file as it was, and when the write or the rename raises an \<open>Exception\<close> the
  temporary file is removed. Only an exception that is not an \<open>OSError\<close> leaves the
  method.
\<close>

theorem cache_save_is_atomic:
  assumes "save_to_disk f base rnd text d = (r, trace)"
  shows "mkstemp (CACHE_DIR base) ''.tmp'' rnd \<noteq> CACHE_FILE base
     \<and> mkstemp (CACHE_DIR base) ''.tmp'' rnd = path_join (CACHE_DIR base) (''tmp'' @ rnd @ ''.tmp'')
     \<and> CACHE_FILE base = path_join (CACHE_DIR base) ''cache.json''
     \<and> (\<forall>s \<in> set trace.
           (s (CACHE_FILE base) = d (CACHE_FILE base) \<or> s (CACHE_FILE base) = Some text)
         \<and> (\<forall>q. q \<noteq> CACHE_FILE base \<and> q \<noteq> mkstemp (CACHE_DIR base) ''.tmp'' rnd \<longrightarrow> s q = d q))
     \<and> (\<forall>s \<in> set (butlast trace). s (CACHE_FILE base) = d (CACHE_FILE base))
     \<and> (\<not> faulty f \<longrightarrow>
           r = Inr ()
         \<and> d(mkstemp (CACHE_DIR base) ''.tmp'' rnd \<mapsto> text) \<in> set (butlast trace)
         \<and> last trace = d(mkstemp (CACHE_DIR base) ''.tmp'' rnd := None, CACHE_FILE base \<mapsto> text))
     \<and> (faulty f \<longrightarrow> last trace (CACHE_FILE base) = d (CACHE_FILE base))
     \<and> (\<forall>k e. makedirs_fault f = None \<and> mkstemp_fault f = None \<and> is_Exception e
             \<and> (write_fault f = Some (k, e) \<or> write_fault f = None \<and> replace_fault f = Some e)
           \<longrightarrow> last trace (mkstemp (CACHE_DIR base) ''.tmp'' rnd) = None)
     \<and> (\<forall>e. r = Inl e \<longrightarrow> \<not> is_OSError e)"
proof -
  let ?tmp = "mkstemp (CACHE_DIR base) ''.tmp'' rnd"
  let ?target = "CACHE_FILE base"
  have ne: "?tmp \<noteq> ?target" by (rule tmp_not_target)
  have P: "s ?target = d ?target" "q \<noteq> ?tmp \<Longrightarrow> s q = d q"
    if "s \<in> set (written_prefixes ?tmp text k d)" for s k q
    using that ne written_prefixes_other[of s "?tmp" "text" k d] by auto
  have 1: "?tmp = path_join (CACHE_DIR base) (''tmp'' @ rnd @ ''.tmp'')"
    by (simp add: mkstemp_def)
  have 2: "?target = path_join (CACHE_DIR base) ''cache.json''"
    by (simp add: CACHE_FILE_def CACHE_DIR_def)
  have 3: "\<forall>s \<in> set trace.
           (s ?target = d ?target \<or> s ?target = Some text)
         \<and> (\<forall>q. q \<noteq> ?target \<and> q \<noteq> ?tmp \<longrightarrow> s q = d q)"
    using assms ne P
    by (auto simp: save_to_disk_def Let_def unlink_and_raise_def
        split: option.splits prod.splits if_splits)
  have 4: "\<forall>s \<in> set (butlast trace). s ?target = d ?target"
    using assms ne P
    by (auto simp: save_to_disk_def Let_def butlast_append
        split: option.splits prod.splits if_splits)
  have 5: "\<not> faulty f \<longrightarrow>
           r = Inr ()
         \<and> d(?tmp \<mapsto> text) \<in> set (butlast trace)
         \<and> last trace = d(?tmp := None, ?target \<mapsto> text)"
  proof
    assume "\<not> faulty f"
    then have "makedirs_fault f = None" "mkstemp_fault f = None" "write_fault f = None"
      "replace_fault f = None"
      unfolding faulty_def by blast+
    then have t: "r = Inr ()"
      "trace = d # written_prefixes ?tmp text (length text) d @ [d(?tmp := None, ?target \<mapsto> text)]"
      using assms by (simp_all add: save_to_disk_def Let_def)
    have "d(?tmp \<mapsto> take (length text) text) \<in> set (written_prefixes ?tmp text (length text) d)"
      unfolding written_prefixes_set by blast
    then show "r = Inr ()
         \<and> d(?tmp \<mapsto> text) \<in> set (butlast trace)
         \<and> last trace = d(?tmp := None, ?target \<mapsto> text)"
      using t by (simp add: butlast_append)
  qed
  have 6: "faulty f \<longrightarrow> last trace ?target = d ?target"
    using assms ne
    by (auto simp: save_to_disk_def Let_def faulty_def unlink_and_raise_def
        split: option.splits prod.splits if_splits)
  have 7: "\<forall>k e. makedirs_fault f = None \<and> mkstemp_fault f = None \<and> is_Exception e
             \<and> (write_fault f = Some (k, e) \<or> write_fault f = None \<and> replace_fault f = Some e)
           \<longrightarrow> last trace ?tmp = None"
    using assms
    by (auto simp: save_to_disk_def Let_def unlink_and_raise_def
        split: option.splits prod.splits if_splits)
  have 8: "\<forall>e. r = Inl e \<longrightarrow> \<not> is_OSError e"
    using assms
    by (auto simp: save_to_disk_def Let_def except_OSError_def
        split: option.splits prod.splits if_splits)
  show ?thesis by (intro conjI ne 1 2 3 4 5 6 7 8)
qed

theorem cache_save_is_atomic_witness:
  "save_to_disk write_fails ''/srv'' ''8a2x'' ''{}'' (old_cache_disk ''/srv'')
     = (Inr (),
        [old_cache_disk ''/srv'',
         (old_cache_disk ''/srv'')(''/srv/data/tmp8a2x.tmp'' \<mapsto> []),
         (old_cache_disk ''/srv'')(''/srv/data/tmp8a2x.tmp'' \<mapsto> ''{''),
         (old_cache_disk ''/srv'')(''/srv/data/tmp8a2x.tmp'' \<mapsto> ''{}''),
         (old_cache_disk ''/srv'')(''/srv/data/tmp8a2x.tmp'' := None)])
   \<and> faulty write_fails
   \<and> old_cache_disk ''/srv'' (CACHE_FILE ''/srv'') = Some ''old''
   \<and> last [old_cache_disk ''/srv'',
         (old_cache_disk ''/srv'')(''/srv/data/tmp8a2x.tmp'' \<mapsto> []),
         (old_cache_disk ''/srv'')(''/srv/data/tmp8a2x.tmp'' \<mapsto> ''{''),
         (old_cache_disk ''/srv'')(''/srv/data/tmp8a2x.tmp'' \<mapsto> ''{}''),
         (old_cache_disk ''/srv'')(''/srv/data/tmp8a2x.tmp'' := None)] (CACHE_FILE ''/srv'')
       = Some ''old''
   \<and> save_to_disk no_save_faults ''/srv'' ''8a2x'' ''{}'' (old_cache_disk ''/srv'')
     = (Inr (),
        [old_cache_disk ''/srv'',
         (old_cache_disk ''/srv'')(''/srv/data/tmp8a2x.tmp'' \<mapsto> []),
         (old_cache_disk ''/srv'')(''/srv/data/tmp8a2x.tmp'' \<mapsto> ''{''),
         (old_cache_disk ''/srv'')(''/srv/data/tmp8a2x.tmp'' \<mapsto> ''{}''),
         (old_cache_disk ''/srv'')(''/srv/data/tmp8a2x.tmp'' := None,
            CACHE_FILE ''/srv'' \<mapsto> ''{}'')])
   \<and> \<not> faulty no_save_faults"
proof -
  have a: "save_to_disk write_fails ''/srv'' ''8a2x'' ''{}'' (old_cache_disk ''/srv'')
     = (Inr (),
        [old_cache_disk ''/srv'',
         (old_cache_disk ''/srv'')(''/srv/data/tmp8a2x.tmp'' \<mapsto> []),
         (old_cache_disk ''/srv'')(''/srv/data/tmp8a2x.tmp'' \<mapsto> ''{''),
         (old_cache_disk ''/srv'')(''/srv/data/tmp8a2x.tmp'' \<mapsto> ''{}''),
         (old_cache_disk ''/srv'')(''/srv/data/tmp8a2x.tmp'' := None)])"
    by (simp add: save_to_disk_def write_fails_def no_save_faults_def Let_def
        written_prefixes_def upt_rec mkstemp_def CACHE_DIR_def path_join_def
        except_OSError_def unlink_and_raise_def)
  have b: "save_to_disk no_save_faults ''/srv'' ''8a2x'' ''{}'' (old_cache_disk ''/srv'')
     = (Inr (),
        [old_cache_disk ''/srv'',
         (old_cache_disk ''/srv'')(''/srv/data/tmp8a2x.tmp'' \<mapsto> []),
         (old_cache_disk ''/srv'')(''/srv/data/tmp8a2x.tmp'' \<mapsto> ''{''),
         (old_cache_disk ''/srv'')(''/srv/data/tmp8a2x.tmp'' \<mapsto> ''{}''),
         (old_cache_disk ''/srv'')(''/srv/data/tmp8a2x.tmp'' := None,
            CACHE_FILE ''/srv'' \<mapsto> ''{}'')])"
    by (simp add: save_to_disk_def no_save_faults_def Let_def
        written_prefixes_def upt_rec mkstemp_def CACHE_DIR_def path_join_def)
  have f: "faulty write_fails" "\<not> faulty no_save_faults"
    by (simp_all add: faulty_def write_fails_def no_save_faults_def)
  have o: "old_cache_disk ''/srv'' (CACHE_FILE ''/srv'') = Some ''old''"
    by (simp add: old_cache_disk_def)
  show ?thesis using cache_save_is_atomic[OF a] cache_save_is_atomic[OF b] a b f o by simp
qed

end
